theory Spec2Isabelle
  imports Complex_Main
begin

section \<open>Python values and string helpers\<close>

text \<open>
  The resolver receives untyped keyword arguments.  A raw argument is one of the values
  below; strings are ASCII character lists.  Python floats are read as real numbers.
\<close>

datatype py_error = TypeError | ValueError | KeyError | DataOverflowError
  | FileExistsError | FileNotFoundError | NotADirectoryError | IsADirectoryError

datatype pyval = PyNone | PyBool bool | PyInt int | PyStr string

fun truthy :: "pyval \<Rightarrow> bool" where
  "truthy PyNone = False"
| "truthy (PyBool b) = b"
| "truthy (PyInt n) = (n \<noteq> 0)"
| "truthy (PyStr s) = (s \<noteq> [])"

definition py_or :: "pyval \<Rightarrow> pyval \<Rightarrow> pyval" where
  \<comment> \<open>\<open>a or b\<close> when evaluating \<open>b\<close> cannot raise\<close>
  "py_or a b = (if truthy a then a else b)"

fun str_nat :: "nat \<Rightarrow> string" where
  "str_nat n = (if n < 10 then [''0123456789'' ! n]
                else str_nat (n div 10) @ [''0123456789'' ! (n mod 10)])"

declare str_nat.simps [simp del]

definition str_int :: "int \<Rightarrow> string" where
  "str_int i = (if i < 0 then CHR ''-'' # str_nat (nat (- i)) else str_nat (nat i))"

fun py_str :: "pyval \<Rightarrow> string" where
  "py_str PyNone = ''None''"
| "py_str (PyBool b) = (if b then ''True'' else ''False'')"
| "py_str (PyInt n) = str_int n"
| "py_str (PyStr s) = s"

definition isspace :: "char \<Rightarrow> bool" where
  \<comment> \<open>the ASCII characters for which \<open>str.isspace\<close> holds\<close>
  "isspace c = (c \<in> set [CHR 0x09, CHR 0x0A, CHR 0x0B, CHR 0x0C, CHR 0x0D,
                          CHR 0x1C, CHR 0x1D, CHR 0x1E, CHR 0x1F, CHR '' ''])"

definition strip :: "string \<Rightarrow> string" where
  "strip s = rev (dropWhile isspace (rev (dropWhile isspace s)))"

definition lstrip_char :: "char \<Rightarrow> string \<Rightarrow> string" where
  \<comment> \<open>\<open>s.lstrip(c)\<close> for a one-character argument\<close>
  "lstrip_char c s = dropWhile (\<lambda>x. x = c) s"

definition lower_char :: "char \<Rightarrow> char" where
  "lower_char c =
     (case map_of (zip ''ABCDEFGHIJKLMNOPQRSTUVWXYZ'' ''abcdefghijklmnopqrstuvwxyz'') c of
        None \<Rightarrow> c | Some l \<Rightarrow> l)"

definition lower :: "string \<Rightarrow> string" where
  "lower s = map lower_char s"

definition digit_val :: "char \<Rightarrow> int option" where
  \<comment> \<open>value of a digit character in bases up to 36\<close>
  "digit_val c =
     (let n = (of_char c :: nat) in
      if 48 \<le> n \<and> n \<le> 57 then Some (int n - 48)
      else if 97 \<le> n \<and> n \<le> 122 then Some (int n - 87)
      else if 65 \<le> n \<and> n \<le> 90 then Some (int n - 55)
      else None)"

fun py_digits :: "int \<Rightarrow> int \<Rightarrow> string \<Rightarrow> int option" where
  \<comment> \<open>digits of base \<open>b\<close>, single underscores allowed between digits\<close>
  "py_digits b acc [] = Some acc"
| "py_digits b acc (c # cs) =
     (if c = CHR ''_'' then
        (case cs of [] \<Rightarrow> None
         | d # ds \<Rightarrow> if d = CHR ''_'' then None else py_digits b acc cs)
      else
        (case digit_val c of None \<Rightarrow> None
         | Some v \<Rightarrow> if v < b then py_digits b (acc * b + v) cs else None))"

definition py_int_str :: "int \<Rightarrow> string \<Rightarrow> int option" where
  \<comment> \<open>\<open>int(s, b)\<close> for \<open>b\<close> 10 or 16: surrounding whitespace, an optional sign, for base 16
      an optional \<open>0x\<close> prefix, then the digits; \<open>None\<close> stands for \<open>ValueError\<close>\<close>
  "py_int_str b s =
     (let t = strip s;
          neg = (t \<noteq> [] \<and> hd t = CHR ''-'');
          u = (if t \<noteq> [] \<and> (hd t = CHR ''-'' \<or> hd t = CHR ''+'') then tl t else t);
          v = (if b = 16 \<and> (take 2 u = ''0x'' \<or> take 2 u = ''0X'')
               then (let w = drop 2 u in if w \<noteq> [] \<and> hd w = CHR ''_'' then tl w else w)
               else u)
      in if v = [] \<or> hd v = CHR ''_'' then None
         else map_option (\<lambda>n. if neg then - n else n) (py_digits b 0 v))"

fun py_int :: "pyval \<Rightarrow> py_error + int" where
  \<comment> \<open>\<open>int(v)\<close>\<close>
  "py_int PyNone = Inl TypeError"
| "py_int (PyBool b) = Inr (if b then 1 else 0)"
| "py_int (PyInt n) = Inr n"
| "py_int (PyStr s) = (case py_int_str 10 s of None \<Rightarrow> Inl ValueError | Some n \<Rightarrow> Inr n)"

type_synonym py_dict = "string \<rightharpoonup> pyval"

definition dict_get :: "py_dict \<Rightarrow> string \<Rightarrow> pyval" where
  \<comment> \<open>\<open>d.get(k)\<close>\<close>
  "dict_get d k = (case d k of None \<Rightarrow> PyNone | Some v \<Rightarrow> v)"

definition dict_item :: "py_dict \<Rightarrow> string \<Rightarrow> py_error + pyval" where
  \<comment> \<open>\<open>d[k]\<close>\<close>
  "dict_item d k = (case d k of None \<Rightarrow> Inl KeyError | Some v \<Rightarrow> Inr v)"


section \<open>utils/qr\_design.py\<close>

text \<open>
  The module imports \<open>QR_THEMES\<close> and \<open>get_qr_style\<close> from \<open>utils.qr_config\<close>.  Both are
  parameters of the model: \<open>QR_THEMES\<close> is a dictionary of presets, of which only the key
  set is consulted, and \<open>get_qr_style\<close> returns the preset dictionary for a style key.
\<close>

record qr_config =
  QR_THEMES :: "string \<rightharpoonup> py_dict"
  get_qr_style :: "string \<Rightarrow> py_dict"

record export_preset =
  preset_size :: int
  preset_dpi :: int
  preset_quiet_zone :: int

definition PRESET_EXPORT_CONFIG :: "string \<rightharpoonup> export_preset" where
  "PRESET_EXPORT_CONFIG =
     [''web'' \<mapsto> \<lparr>preset_size = 600, preset_dpi = 144, preset_quiet_zone = 4\<rparr>,
      ''print'' \<mapsto> \<lparr>preset_size = 1200, preset_dpi = 300, preset_quiet_zone = 6\<rparr>,
      ''sticker'' \<mapsto> \<lparr>preset_size = 900, preset_dpi = 300, preset_quiet_zone = 6\<rparr>,
      ''poster'' \<mapsto> \<lparr>preset_size = 1800, preset_dpi = 300, preset_quiet_zone = 8\<rparr>]"

text \<open>
  The entries of \<open>warnings\<close> are message strings in the source.  Each constructor stands for
  one of the five messages; the low-contrast message carries the ratio it prints.
\<close>

datatype warning =
    LowContrast real
  | ThinLineSmallSize
  | QuietZoneBelow4
  | FloatingFrame
  | SafeModeCorrected

record QRDesign =
  style :: string
  fg :: string
  bg :: string
  module_style :: string
  eye_style :: string
  qr_size :: int
  output_preset :: string
  export_format :: string
  frame_style :: string
  logo_scale :: int
  logo_bg_mode :: string
  quiet_zone :: int
  dpi :: int
  contrast_ratio :: real
  warnings :: "warning list"
  safe_mode :: bool
  safe_mode_applied :: bool

definition normalize_size :: "pyval \<Rightarrow> pyval \<Rightarrow> py_error + int" where
  "normalize_size raw_size preset =
     (case PRESET_EXPORT_CONFIG ''web'' of None \<Rightarrow> Inl KeyError
      | Some web \<Rightarrow>
        (let fallback = preset_size
               (case PRESET_EXPORT_CONFIG (lower (strip (py_str (py_or preset (PyStr '''')))))
                of None \<Rightarrow> web | Some p \<Rightarrow> p)
         in case py_int (py_or raw_size (PyInt fallback)) of
              Inr sz \<Rightarrow> Inr (max 200 (min sz 2000))
            | Inl TypeError \<Rightarrow> Inr (max 200 (min fallback 2000))
            | Inl ValueError \<Rightarrow> Inr (max 200 (min fallback 2000))
            | Inl e \<Rightarrow> Inl e))"

definition design_hex_to_rgb :: "string \<Rightarrow> int \<times> int \<times> int" where
  "design_hex_to_rgb v =
     (let raw = lstrip_char (CHR ''#'') (strip v);
          raw = (if length raw = 3 then concat (map (\<lambda>ch. [ch, ch]) raw) else raw)
      in if length raw \<noteq> 6 then (13, 42, 120)
         else (case (py_int_str 16 (take 2 raw),
                     py_int_str 16 (take 2 (drop 2 raw)),
                     py_int_str 16 (take 2 (drop 4 raw))) of
                 (Some r, Some g, Some b) \<Rightarrow> (r, g, b)
               | _ \<Rightarrow> (13, 42, 120)))"

definition design_comp :: "int \<Rightarrow> real" where
  \<comment> \<open>the local function \<open>comp\<close> of \<open>_relative_luminance\<close>\<close>
  "design_comp v =
     (let x = real_of_int v / 255
      in if x \<le> 0.03928 then x / 12.92 else ((x + 0.055) / 1.055) powr 2.4)"

definition design_relative_luminance :: "int \<times> int \<times> int \<Rightarrow> real" where
  "design_relative_luminance rgb =
     (case rgb of (r, g, b) \<Rightarrow>
        0.2126 * design_comp r + 0.7152 * design_comp g + 0.0722 * design_comp b)"

definition design_contrast_ratio :: "string \<Rightarrow> string \<Rightarrow> real" where
  "design_contrast_ratio f b =
     (let l1 = design_relative_luminance (design_hex_to_rgb f);
          l2 = design_relative_luminance (design_hex_to_rgb b);
          light = max l1 l2;
          dark = min l1 l2
      in (light + 0.05) / (dark + 0.05))"

text \<open>
  \<open>resolve_design\<close> takes keyword arguments only; they are the fields of a record, named
  after the parameters with the prefix \<open>raw_\<close>.
\<close>

record resolve_args =
  raw_style :: pyval
  raw_fg_color :: pyval
  raw_bg_color :: pyval
  raw_module_style :: pyval
  raw_eye_style :: pyval
  raw_qr_size :: pyval
  raw_output_preset :: pyval
  raw_export_format :: pyval
  raw_frame_style :: pyval
  raw_logo_scale :: pyval
  raw_logo_bg_mode :: pyval
  raw_safe_mode :: pyval

definition kwargs :: "pyval \<Rightarrow> resolve_args" where
  \<comment> \<open>a call that passes \<open>style\<close> and leaves every other parameter at its default \<open>None\<close>\<close>
  "kwargs s = \<lparr>raw_style = s, raw_fg_color = PyNone, raw_bg_color = PyNone,
     raw_module_style = PyNone, raw_eye_style = PyNone, raw_qr_size = PyNone,
     raw_output_preset = PyNone, raw_export_format = PyNone, raw_frame_style = PyNone,
     raw_logo_scale = PyNone, raw_logo_bg_mode = PyNone, raw_safe_mode = PyNone\<rparr>"

definition style_key_of :: "qr_config \<Rightarrow> pyval \<Rightarrow> string" where
  \<comment> \<open>lines 90 to 92\<close>
  "style_key_of cfg s =
     (let style_key = lower (strip (py_str (py_or s (PyStr ''modern''))));
          style_key = (if style_key = [] then ''modern'' else style_key)
      in if style_key \<noteq> ''custom'' \<and> QR_THEMES cfg style_key = None then ''classic''
         else style_key)"

definition output_of :: "pyval \<Rightarrow> string" where
  \<comment> \<open>lines 95 and 96\<close>
  "output_of p =
     (let output = lower (strip (py_str (py_or p (PyStr ''web''))))
      in if PRESET_EXPORT_CONFIG output \<noteq> None then output else ''web'')"

definition select_style :: "string \<Rightarrow> py_dict \<Rightarrow> resolve_args
    \<Rightarrow> py_error + (string \<times> string \<times> string \<times> string)" where
  \<comment> \<open>lines 101 to 110: the values of \<open>fg\<close>, \<open>bg\<close>, \<open>module\<close> and \<open>eye\<close>\<close>
  "select_style style_key conf a =
     (if style_key = ''custom'' then
        (case (if truthy (raw_fg_color a) then Inr (raw_fg_color a) else dict_item conf ''fg'') of
           Inl e \<Rightarrow> Inl e
         | Inr f \<Rightarrow>
        (case (if truthy (raw_bg_color a) then Inr (raw_bg_color a) else dict_item conf ''bg'') of
           Inl e \<Rightarrow> Inl e
         | Inr b \<Rightarrow>
           Inr (py_str f, py_str b,
                py_str (py_or (py_or (raw_module_style a) (dict_get conf ''module_style''))
                              (PyStr ''square'')),
                py_str (py_or (py_or (raw_eye_style a) (dict_get conf ''eye_style''))
                              (PyStr ''square'')))))
      else
        (case dict_item conf ''fg'' of Inl e \<Rightarrow> Inl e
         | Inr f \<Rightarrow>
        (case dict_item conf ''bg'' of Inl e \<Rightarrow> Inl e
         | Inr b \<Rightarrow>
           Inr (py_str f, py_str b,
                py_str (py_or (dict_get conf ''module_style'') (PyStr ''square'')),
                py_str (py_or (dict_get conf ''eye_style'') (PyStr ''square''))))))"

definition safe_enabled_of :: "pyval \<Rightarrow> bool" where
  \<comment> \<open>lines 114 and 115\<close>
  "safe_enabled_of sm =
     (let safe_raw = (if sm \<noteq> PyNone then lower (strip (py_str sm)) else [])
      in if sm \<noteq> PyNone then safe_raw \<in> {''1'', ''true'', ''yes'', ''on''} else False)"

record safe_vars =
  v_fg :: string
  v_bg :: string
  v_module :: string
  v_quiet_zone :: int
  v_contrast :: real
  v_safe_applied :: bool

definition safe_mode_block :: "bool \<Rightarrow> int \<Rightarrow> safe_vars \<Rightarrow> safe_vars" where
  \<comment> \<open>lines 120 to 136, on the local variables the block assigns\<close>
  "safe_mode_block safe_enabled qr_px s =
     (if safe_enabled then
        (let s = (if v_contrast s < 4.5 then
                    (let bg_l = design_relative_luminance (design_hex_to_rgb (v_bg s));
                         f = (if bg_l > 0.5 then ''#111111'' else ''#FFFFFF'')
                     in s\<lparr>v_fg := f, v_contrast := design_contrast_ratio f (v_bg s),
                          v_safe_applied := True\<rparr>)
                  else s);
             s = (if v_contrast s < 4.5 then
                    s\<lparr>v_fg := ''#0D2A78'', v_bg := ''#FFFFFF'',
                      v_contrast := design_contrast_ratio ''#0D2A78'' ''#FFFFFF'',
                      v_safe_applied := True\<rparr>
                  else s);
             s = (if v_module s = ''thin-line'' \<and> qr_px < 700 then
                    s\<lparr>v_module := ''square'', v_safe_applied := True\<rparr>
                  else s);
             s = (if v_quiet_zone s < 4 then s\<lparr>v_quiet_zone := 4, v_safe_applied := True\<rparr>
                  else s)
         in s)
      else s)"

definition collect_warnings :: "pyval \<Rightarrow> int \<Rightarrow> bool \<Rightarrow> safe_vars \<Rightarrow> warning list" where
  \<comment> \<open>lines 138 to 148\<close>
  "collect_warnings frame qr_px safe_enabled s =
     (if v_contrast s < 4.5 then [LowContrast (v_contrast s)] else [])
     @ (if v_module s = ''thin-line'' \<and> qr_px < 700 then [ThinLineSmallSize] else [])
     @ (if v_quiet_zone s < 4 then [QuietZoneBelow4] else [])
     @ (if lower (strip (py_str (py_or frame (PyStr ''none'')))) = ''floating''
        then [FloatingFrame] else [])
     @ (if safe_enabled \<and> v_safe_applied s then [SafeModeCorrected] else [])"

definition resolve_design :: "qr_config \<Rightarrow> resolve_args \<Rightarrow> py_error + QRDesign" where
  "resolve_design cfg a =
     (let style_key = style_key_of cfg (raw_style a);
          conf = get_qr_style cfg style_key;
          output = output_of (raw_output_preset a);
          export = lower (strip (py_str (py_or (raw_export_format a) (PyStr ''png''))))
      in case PRESET_EXPORT_CONFIG output of None \<Rightarrow> Inl KeyError
         | Some preset_cfg \<Rightarrow>
      (case select_style style_key conf a of Inl e \<Rightarrow> Inl e
         | Inr (f, b, modul, eye) \<Rightarrow>
      (case normalize_size (raw_qr_size a) (PyStr output) of Inl e \<Rightarrow> Inl e
         | Inr qr_px \<Rightarrow>
        (let safe_enabled = safe_enabled_of (raw_safe_mode a);
             s = \<lparr>v_fg = f, v_bg = b, v_module = modul,
                  v_quiet_zone = max 2 (min (preset_quiet_zone preset_cfg) 12),
                  v_contrast = design_contrast_ratio f b, v_safe_applied = False\<rparr>;
             s = safe_mode_block safe_enabled qr_px s;
             ws = collect_warnings (raw_frame_style a) qr_px safe_enabled s
         in case py_int (py_or (raw_logo_scale a) (PyInt 20)) of Inl e \<Rightarrow> Inl e
            | Inr scale \<Rightarrow>
              Inr \<lparr>style = style_key, fg = v_fg s, bg = v_bg s, module_style = v_module s,
                   eye_style = eye, qr_size = qr_px, output_preset = output,
                   export_format =
                     (if export \<in> {''png'', ''svg'', ''pdf'', ''zip''} then export else ''png''),
                   frame_style = lower (strip (py_str (py_or (raw_frame_style a) (PyStr ''none'')))),
                   logo_scale = max 8 (min scale 20),
                   logo_bg_mode =
                     lower (strip (py_str (py_or (raw_logo_bg_mode a) (PyStr ''auto-white'')))),
                   quiet_zone = v_quiet_zone s,
                   dpi = max 72 (min (preset_dpi preset_cfg) 600),
                   contrast_ratio = v_contrast s, warnings = ws,
                   safe_mode = safe_enabled, safe_mode_applied = v_safe_applied s\<rparr>))))"

section \<open>utils/qr\_generator.py\<close>

text \<open>
  The generator calls the \<open>qrcode\<close> and \<open>PIL\<close> libraries.  What they compute enters the
  model as parameters: \<open>qr_make payload border\<close> is the matrix that \<open>get_matrix\<close> returns for
  a code built with that border (or the exception the encoder raises), \<open>compose_image\<close> is
  the in-memory drawing pipeline, \<open>png_encode\<close> the PNG encoder and \<open>pdf_save\<close> the PDF
  encoder.
\<close>

definition DEFAULT_FG :: string where
  "DEFAULT_FG = ''#0D2A78''"

definition DEFAULT_BG :: string where
  "DEFAULT_BG = ''#FFFFFF''"

definition normalize_hex :: "string \<Rightarrow> string \<Rightarrow> string" where
  "normalize_hex v fallback =
     (let raw = strip v
      in if take 1 raw = ''#'' \<and> (length raw = 4 \<or> length raw = 7) then raw else fallback)"

record QRCode =
  border :: int
  get_matrix :: "bool list list"

type_synonym qr_encoder = "string \<Rightarrow> int \<Rightarrow> py_error + bool list list"

definition build_qr_border :: "int \<Rightarrow> int" where
  \<comment> \<open>line 38: \<open>max(2, min(int(quiet_zone or 4), 12))\<close>\<close>
  "build_qr_border qz = max 2 (min (if qz \<noteq> 0 then qz else 4) 12)"

definition build_qr :: "qr_encoder \<Rightarrow> string \<Rightarrow> int \<Rightarrow> py_error + QRCode" where
  "build_qr qr_make payload qz =
     (let b = build_qr_border qz
      in case qr_make payload b of Inl e \<Rightarrow> Inl e
         | Inr m \<Rightarrow> Inr \<lparr>border = b, get_matrix = m\<rparr>)"

text \<open>
  Drawing mutates the image in the source.  The model returns the drawing calls in the order
  they are made: the box, the radius (rounded rectangles only), \<open>fill\<close>, \<open>outline\<close>, \<open>width\<close>.
\<close>

datatype draw_op =
    RoundedRectangle "int list" int "string option" "string option" int
  | Ellipse "int list" "string option" "string option" int

definition eye_shapes :: "string \<Rightarrow> int \<Rightarrow> string \<Rightarrow> string \<Rightarrow> int \<times> int \<Rightarrow> draw_op list" where
  \<comment> \<open>lines 87 to 110, the body of the loop over \<open>origins\<close>\<close>
  "eye_shapes sty module_px f b origin =
     (case origin of (ox, oy) \<Rightarrow>
      (let eye_px = 7 * module_px;
           inset_outer = max 1 module_px;
           inset_inner = max 2 (2 * module_px);
           outer = [ox, oy, ox + eye_px, oy + eye_px];
           middle = [ox + inset_outer, oy + inset_outer,
                     ox + eye_px - inset_outer, oy + eye_px - inset_outer];
           inner = [ox + inset_inner, oy + inset_inner,
                    ox + eye_px - inset_inner, oy + eye_px - inset_inner]
       in if sty = ''rounded'' then
            (let radius = max 6 (module_px * 2)
             in [RoundedRectangle outer radius None (Some f) (max 2 module_px),
                 RoundedRectangle middle (max 4 (radius - module_px)) (Some b) None 1,
                 RoundedRectangle inner (max 3 (radius - 2 * module_px)) (Some f) None 1])
          else if sty = ''ring'' then
            [Ellipse outer None (Some f) (max 2 module_px),
             Ellipse middle (Some b) None 1,
             Ellipse inner (Some f) None 1]
          else if sty = ''target'' then
            [RoundedRectangle outer (max 4 module_px) None (Some f) (max 2 module_px),
             RoundedRectangle middle (max 3 module_px) (Some b) None 1,
             Ellipse inner (Some f) None 1]
          else if sty = ''dots'' then
            (let cx = (inner ! 0 + inner ! 2) div 2;
                 cy = (inner ! 1 + inner ! 3) div 2;
                 r = max 2 module_px
             in [RoundedRectangle outer (max 4 module_px) None (Some f) (max 2 module_px),
                 RoundedRectangle middle (max 3 module_px) (Some b) None 1,
                 Ellipse [cx - r, cy - r, cx + r, cy + r] (Some f) None 1])
          else []))"

definition draw_eye_overlays :: "int \<Rightarrow> QRCode \<Rightarrow> string \<Rightarrow> string \<Rightarrow> string \<Rightarrow> draw_op list" where
  \<comment> \<open>the first argument is \<open>img.width\<close>\<close>
  "draw_eye_overlays img_width qr f b eye =
     (let sty = lower (strip (if eye \<noteq> [] then eye else ''square''))
      in if sty \<in> {[], ''square''} then []
         else
           (let matrix_size = int (length (get_matrix qr))
            in if matrix_size \<le> 0 then []
               else
                 (let module_px = max 1 (img_width div matrix_size);
                      bd = border qr;
                      eye_modules = 7;
                      origins = [(bd * module_px, bd * module_px),
                                 ((matrix_size - bd - eye_modules) * module_px, bd * module_px),
                                 (bd * module_px, (matrix_size - bd - eye_modules) * module_px)]
                  in concat (map (eye_shapes sty module_px f b) origins))))"

definition generator_hex_to_rgb :: "string \<Rightarrow> int \<times> int \<times> int" where
  "generator_hex_to_rgb hex_color =
     (let raw = lstrip_char (CHR ''#'') (strip hex_color);
          raw = (if length raw = 3 then concat (map (\<lambda>ch. [ch, ch]) raw) else raw)
      in if length raw \<noteq> 6 then (13, 42, 120)
         else (case (py_int_str 16 (take 2 raw),
                     py_int_str 16 (take 2 (drop 2 raw)),
                     py_int_str 16 (take 2 (drop 4 raw))) of
                 (Some r, Some g, Some b) \<Rightarrow> (r, g, b)
               | _ \<Rightarrow> (13, 42, 120)))"

definition generator_conv :: "int \<Rightarrow> real" where
  \<comment> \<open>the local function \<open>conv\<close> of \<open>_relative_luminance\<close>\<close>
  "generator_conv v =
     (let x = real_of_int v / 255
      in if x \<le> 0.03928 then x / 12.92 else ((x + 0.055) / 1.055) powr 2.4)"

definition generator_relative_luminance :: "int \<times> int \<times> int \<Rightarrow> real" where
  "generator_relative_luminance rgb =
     (case rgb of (r, g, b) \<Rightarrow>
        0.2126 * generator_conv r + 0.7152 * generator_conv g + 0.0722 * generator_conv b)"

definition generator_contrast_ratio :: "string \<Rightarrow> string \<Rightarrow> real" where
  "generator_contrast_ratio f b =
     (let l1 = generator_relative_luminance (generator_hex_to_rgb f);
          l2 = generator_relative_luminance (generator_hex_to_rgb b);
          light = max l1 l2;
          dark = min l1 l2
      in (light + 0.05) / (dark + 0.05))"

text \<open>
  An f-string is the concatenation of its literal segments and the decimal renderings of the
  integers it formats.  The SVG bytes are the UTF-8 encoding of ASCII text, hence the text itself.
\<close>

definition svg_eye_overlay :: "string \<Rightarrow> int \<Rightarrow> int \<Rightarrow> int \<Rightarrow> string \<Rightarrow> string \<Rightarrow> string" where
  \<open>svg_eye_overlay sty x y s f b =
     (if sty = ''rounded'' then
        (let r = max 3 (s div 6)
         in concat
             [''<rect x="'', str_int x, ''" y="'', str_int y, ''" width="'', str_int s,
              ''" height="'', str_int s, ''" rx="'', str_int r, ''" ry="'', str_int r,
              ''" fill="none" stroke="'', f, ''" stroke-width="2" />'',
              ''<rect x="'', str_int (x + s div 6), ''" y="'', str_int (y + s div 6),
              ''" width="'', str_int ((s * 2) div 3), ''" height="'', str_int ((s * 2) div 3),
              ''" rx="'', str_int (max 2 (r div 2)), ''" ry="'', str_int (max 2 (r div 2)),
              ''" fill="'', b, ''" />'',
              ''<rect x="'', str_int (x + s div 3), ''" y="'', str_int (y + s div 3),
              ''" width="'', str_int (s div 3), ''" height="'', str_int (s div 3),
              ''" rx="'', str_int (max 2 (r div 3)), ''" ry="'', str_int (max 2 (r div 3)),
              ''" fill="'', f, ''" />''])
      else if sty = ''ring'' then
        (let c = x + (s div 2); r = s div 2
         in concat
             [''<circle cx="'', str_int c, ''" cy="'', str_int (y + r), ''" r="'', str_int r,
              ''" fill="none" stroke="'', f, ''" stroke-width="2" />'',
              ''<circle cx="'', str_int c, ''" cy="'', str_int (y + r),
              ''" r="'', str_int ((r * 2) div 3), ''" fill="'', b, ''" />'',
              ''<circle cx="'', str_int c, ''" cy="'', str_int (y + r),
              ''" r="'', str_int (max 2 (r div 3)), ''" fill="'', f, ''" />''])
      else if sty = ''target'' then
        (let c = x + (s div 2); r = s div 2
         in concat
             [''<rect x="'', str_int x, ''" y="'', str_int y, ''" width="'', str_int s,
              ''" height="'', str_int s,
              ''" rx="6" ry="6" fill="none" stroke="'', f, ''" stroke-width="2" />'',
              ''<circle cx="'', str_int c, ''" cy="'', str_int (y + r),
              ''" r="'', str_int ((r * 2) div 3), ''" fill="'', b, ''" />'',
              ''<circle cx="'', str_int c, ''" cy="'', str_int (y + r),
              ''" r="'', str_int (max 2 (r div 3)), ''" fill="'', f, ''" />''])
      else if sty = ''dots'' then
        (let c = x + (s div 2); r = s div 2
         in concat
             [''<rect x="'', str_int x, ''" y="'', str_int y, ''" width="'', str_int s,
              ''" height="'', str_int s,
              ''" rx="6" ry="6" fill="none" stroke="'', f, ''" stroke-width="2" />'',
              ''<rect x="'', str_int (x + s div 6), ''" y="'', str_int (y + s div 6),
              ''" width="'', str_int ((s * 2) div 3), ''" height="'', str_int ((s * 2) div 3),
              ''" rx="4" ry="4" fill="'', b, ''" />'',
              ''<circle cx="'', str_int c, ''" cy="'', str_int (y + r),
              ''" r="'', str_int (max 2 (r div 3)), ''" fill="'', f, ''" />''])
      else [])\<close>

definition svg_module :: "string \<Rightarrow> int \<Rightarrow> string \<Rightarrow> int \<Rightarrow> int \<Rightarrow> string" where
  \<comment> \<open>lines 317 to 332: the element appended for an "on" cell whose corner is \<open>(px, py)\<close>\<close>
  \<open>svg_module mod_style cell f px py =
     (if mod_style = ''dots'' then
        (let r = max 1 (cell div 2)
         in concat [''<circle cx="'', str_int (px + r), ''" cy="'', str_int (py + r),
                    ''" r="'', str_int r, ''" fill="'', f, ''" />''])
      else if mod_style \<in> {''rounded'', ''squircle'', ''soft''} then
        (let rx = max 1 (cell div (if mod_style = ''rounded'' then 4 else 3))
         in concat [''<rect x="'', str_int px, ''" y="'', str_int py,
                    ''" width="'', str_int cell, ''" height="'', str_int cell,
                    ''" rx="'', str_int rx, ''" ry="'', str_int rx, ''" fill="'', f, ''" />''])
      else if mod_style = ''thin-line'' then
        (let line = max 1 (cell div 3); inset = (cell - line) div 2
         in concat [''<rect x="'', str_int (px + inset), ''" y="'', str_int (py + inset),
                    ''" width="'', str_int line, ''" height="'', str_int line,
                    ''" fill="'', f, ''" />''])
      else
        concat [''<rect x="'', str_int px, ''" y="'', str_int py,
                ''" width="'', str_int cell, ''" height="'', str_int cell,
                ''" fill="'', f, ''" />''])\<close>

definition svg_module_parts :: "bool list list \<Rightarrow> string \<Rightarrow> int \<Rightarrow> int \<Rightarrow> string \<Rightarrow> string list" where
  \<comment> \<open>lines 310 to 332: the loops over the rows and the cells of the matrix\<close>
  "svg_module_parts m module_style_arg pad cell f =
     (let mod_style = lower (if module_style_arg \<noteq> [] then module_style_arg else ''square'')
      in concat (map (\<lambda>(y, row).
           concat (map (\<lambda>(x, on).
             if \<not> on then []
             else [svg_module mod_style cell f (pad + int x * cell) (pad + int y * cell)])
           (enumerate 0 row)))
         (enumerate 0 m)))"

definition svg_eye_parts :: "string \<Rightarrow> QRCode \<Rightarrow> int \<Rightarrow> int \<Rightarrow> int \<Rightarrow> string \<Rightarrow> string \<Rightarrow> string list" where
  \<comment> \<open>lines 334 to 343\<close>
  "svg_eye_parts eye_style_arg qr n pad cell f b =
     (let eye = lower (strip (if eye_style_arg \<noteq> [] then eye_style_arg else ''square''))
      in if eye \<in> {''rounded'', ''ring'', ''target''} then
           (let eye_px = cell * 7;
                origins = [(pad + (border qr * cell), pad + (border qr * cell)),
                           (pad + ((n - border qr - 7) * cell), pad + (border qr * cell)),
                           (pad + (border qr * cell), pad + ((n - border qr - 7) * cell))]
            in map (\<lambda>(ox, oy). svg_eye_overlay eye ox oy eye_px f b) origins)
         else [])"

definition svg_escape :: "string \<Rightarrow> string" where
  \<comment> \<open>\<open>.replace("&", "&amp;").replace("<", "&lt;").replace(">", "&gt;")\<close>\<close>
  "svg_escape t =
     concat (map (\<lambda>c. if c = CHR ''>'' then ''&gt;'' else [c])
       (concat (map (\<lambda>c. if c = CHR ''<'' then ''&lt;'' else [c])
         (concat (map (\<lambda>c. if c = CHR ''&'' then ''&amp;'' else [c]) t)))))"

definition text_or :: "string option \<Rightarrow> string \<Rightarrow> string" where
  \<comment> \<open>\<open>t or d\<close> for an optional string\<close>
  "text_or t d = (case t of None \<Rightarrow> d | Some s \<Rightarrow> if s \<noteq> [] then s else d)"

definition svg_frame_parts :: "string \<Rightarrow> string option \<Rightarrow> int \<Rightarrow> int \<Rightarrow> string \<Rightarrow> string \<Rightarrow> string list" where
  \<comment> \<open>lines 345 to 358\<close>
  \<open>svg_frame_parts frame frame_text width height f b =
     (if frame = ''corner'' then
        (let text = svg_escape (text_or frame_text ''Scan me'')
         in [concat [''<rect x="10" y="10" width="88" height="26" rx="8" ry="8" fill="'', f,
                     ''" />''],
             concat [''<text x="18" y="27" fill="'', b,
                     ''" font-size="12" font-family="Arial, sans-serif">'', text, ''</text>'']])
      else if frame = ''floating'' then
        (let cy = height - 42; cx = width - 42
         in [concat [''<circle cx="'', str_int cx, ''" cy="'', str_int cy,
                     ''" r="28" fill="'', f, ''" />''],
             concat [''<text x="'', str_int (cx - 16), ''" y="'', str_int (cy + 4),
                     ''" fill="'', b,
                     ''" font-size="10" font-family="Arial, sans-serif">SCAN</text>'']])
      else if frame = ''pill'' then
        (let text = svg_escape (text_or frame_text ''Scan me'');
             y = height - 52
         in [concat [''<rect x="'', str_int ((width div 2) - 62), ''" y="'', str_int y,
                     ''" width="124" height="34" rx="17" ry="17" fill="'', f, ''" />''],
             concat [''<text x="'', str_int ((width div 2) - 28), ''" y="'', str_int (y + 21),
                     ''" fill="'', b,
                     ''" font-size="13" font-family="Arial, sans-serif">'', text, ''</text>'']])
      else [])\<close>

definition generate_svg_bytes :: "qr_encoder \<Rightarrow> string \<Rightarrow> int \<Rightarrow> string \<Rightarrow> string \<Rightarrow> string
    \<Rightarrow> string \<Rightarrow> string \<Rightarrow> string option \<Rightarrow> int \<Rightarrow> py_error + string" where
  \<open>generate_svg_bytes qr_make payload sz f b module_style_arg eye_style_arg frame frame_text qz =
     (case build_qr qr_make payload qz of Inl e \<Rightarrow> Inl e
      | Inr qr \<Rightarrow>
        (let m = get_matrix qr;
             n = int (length m);
             pad = 12;
             cell = max 2 (sz div max 1 n);
             qr_w = n * cell;
             frame_extra = (if frame \<in> {''pill'', ''floating''} then 86
                            else if frame = ''corner'' then 34 else 0);
             width = qr_w + (pad * 2);
             height = qr_w + (pad * 2) + frame_extra;
             parts =
               [''<?xml version="1.0" encoding="UTF-8"?>'',
                concat [''<svg xmlns="http://www.w3.org/2000/svg" width="'', str_int width,
                        ''" height="'', str_int height, ''" viewBox="0 0 '', str_int width,
                        '' '', str_int height, ''">''],
                concat [''<rect x="0" y="0" width="'', str_int width, ''" height="'',
                        str_int height, ''" fill="'', b, ''" />''],
                concat [''<rect x="'', str_int pad, ''" y="'', str_int pad, ''" width="'',
                        str_int qr_w, ''" height="'', str_int qr_w, ''" fill="'', b, ''" />'']]
               @ svg_module_parts m module_style_arg pad cell f
               @ svg_eye_parts eye_style_arg qr n pad cell f b
               @ svg_frame_parts frame frame_text width height f b
               @ [''</svg>'']
         in Inr (concat parts)))\<close>

definition to_pdf_bytes :: "(string \<Rightarrow> int \<Rightarrow> py_error + string) \<Rightarrow> string \<Rightarrow> int
    \<Rightarrow> py_error + string" where
  \<comment> \<open>the resolution handed to the encoder is \<open>max(72, min(int(dpi or 300), 600))\<close>\<close>
  "to_pdf_bytes pdf_save png_bytes d =
     pdf_save png_bytes (max 72 (min (if d \<noteq> 0 then d else 300) 600))"

text \<open>
  The file system is explicit state: the set of directories and the contents of the files,
  keyed by path text relative to the working directory.  Only what \<open>generate_qr_png\<close> does
  to it is modelled: \<open>Path.mkdir(parents=True, exist_ok=True)\<close> on the output directory and
  the \<open>save\<close> of the image under a file name.  Permissions and disk space are outside the
  model, and a file name is taken as pathlib prints it (no redundant separators or dots).
\<close>

record filesystem =
  fs_dirs :: "string set"
  fs_files :: "string \<rightharpoonup> string"

definition mkdir_output_dir :: "filesystem \<Rightarrow> py_error + filesystem" where
  \<comment> \<open>lines 443 and 444\<close>
  "mkdir_output_dir w =
     (if fs_files w ''static'' \<noteq> None then Inl NotADirectoryError
      else if fs_files w ''static/generated_qr'' \<noteq> None then Inl FileExistsError
      else Inr (w\<lparr>fs_dirs := fs_dirs w \<union> {''static'', ''static/generated_qr''}\<rparr>))"

definition path_join :: "string \<Rightarrow> string \<Rightarrow> string" where
  \<comment> \<open>\<open>str(d / name)\<close>: an absolute name replaces the directory\<close>
  "path_join d name = (if take 1 name = ''/'' then name else d @ ''/'' @ name)"

definition dirname :: "string \<Rightarrow> string" where
  "dirname p = rev (drop 1 (dropWhile (\<lambda>c. c \<noteq> CHR ''/'') (rev p)))"

definition save_file :: "string \<Rightarrow> string \<Rightarrow> filesystem \<Rightarrow> py_error + filesystem" where
  \<comment> \<open>line 452: the file is opened for writing, created or truncated, and filled\<close>
  "save_file p content w =
     (if p \<in> fs_dirs w then Inl IsADirectoryError
      else if fs_files w (dirname p) \<noteq> None then Inl NotADirectoryError
      else if dirname p \<noteq> [] \<and> dirname p \<notin> fs_dirs w then Inl FileNotFoundError
      else Inr (w\<lparr>fs_files := (fs_files w)(p \<mapsto> content)\<rparr>))"

record png_args =
  arg_payload :: string
  arg_size :: int
  arg_fg :: string
  arg_bg :: string
  arg_logo_path :: "string option"
  arg_module_style :: string
  arg_eye_style :: string
  arg_frame_text :: "string option"
  arg_frame_color :: string
  arg_gradient :: "(string \<times> string) option"
  arg_logo_position :: string
  arg_filename :: "string option"
  arg_frame_style :: string
  arg_logo_scale :: int
  arg_logo_bg_mode :: string
  arg_quiet_zone :: int
  arg_dpi :: int

definition png_defaults :: "string \<Rightarrow> png_args" where
  \<comment> \<open>a call that passes the payload and leaves every other parameter at its default\<close>
  "png_defaults payload =
     \<lparr>arg_payload = payload, arg_size = 600, arg_fg = DEFAULT_FG, arg_bg = DEFAULT_BG,
      arg_logo_path = None, arg_module_style = ''square'', arg_eye_style = ''square'',
      arg_frame_text = None, arg_frame_color = ''#4F46E5'', arg_gradient = None,
      arg_logo_position = ''center'', arg_filename = None, arg_frame_style = ''none'',
      arg_logo_scale = 20, arg_logo_bg_mode = ''auto-white'', arg_quiet_zone = 4,
      arg_dpi = 300\<rparr>"

record 'img libs =
  qr_make :: qr_encoder
  compose_image :: "filesystem \<Rightarrow> QRCode \<Rightarrow> string \<Rightarrow> string \<Rightarrow> draw_op list \<Rightarrow> string
    \<Rightarrow> png_args \<Rightarrow> py_error + 'img"
  png_encode :: "'img \<Rightarrow> py_error + string"
  pdf_save :: "string \<Rightarrow> int \<Rightarrow> py_error + string"

datatype quality_warning =
    QLowContrast real
  | QQuietZoneBelow4
  | QThinLineSmallSize
  | QLogoAbove20

record png_result =
  res_path :: string
  res_bytes :: string
  res_svg_bytes :: string
  res_pdf_bytes :: string
  res_contrast_ratio :: real
  res_quality_warnings :: "quality_warning list"

text \<open>
  \<open>generate_qr_png\<close> reads the clock for the default file name: \<open>now\<close> is
  \<open>int(time.time())\<close>.  The call \<open>compose_image\<close> stands for lines 400 to 441; it receives
  the file system (the logo is read from it), the code, the normalised colours, the eye
  overlay calls for the library's image, whose width is ten pixels per module, and the frame
  style after the compatibility rule of line 430.  \<open>png_encode\<close> is the encoding of lines 448
  to 450; the \<open>save\<close> of line 452 writes the same encoding to the file.
\<close>

definition generate_qr_png :: "'img libs \<Rightarrow> int \<Rightarrow> png_args \<Rightarrow> filesystem
    \<Rightarrow> filesystem \<times> (py_error + png_result)" where
  "generate_qr_png lib now a w =
     (let safe_fg = normalize_hex (arg_fg a) DEFAULT_FG;
          safe_bg = normalize_hex (arg_bg a) DEFAULT_BG
      in case build_qr (qr_make lib) (arg_payload a) (arg_quiet_zone a) of
           Inl e \<Rightarrow> (w, Inl e)
         | Inr qr \<Rightarrow>
      (let overlays = draw_eye_overlays (10 * int (length (get_matrix qr))) qr safe_fg safe_bg
                        (arg_eye_style a);
           frame = (if text_or (arg_frame_text a) [] \<noteq> [] \<and> arg_frame_style a \<in> {''none'', []}
                    then ''pill'' else arg_frame_style a)
       in case compose_image lib w qr safe_fg safe_bg overlays frame a of
            Inl e \<Rightarrow> (w, Inl e)
          | Inr img \<Rightarrow>
      (case mkdir_output_dir w of
            Inl e \<Rightarrow> (w, Inl e)
          | Inr w1 \<Rightarrow>
      (let filename = text_or (arg_filename a) (''qr_'' @ str_int now @ ''.png'');
           file_path = path_join ''static/generated_qr'' filename
       in case png_encode lib img of
            Inl e \<Rightarrow> (w1, Inl e)
          | Inr png \<Rightarrow>
      (case save_file file_path png w1 of
            Inl e \<Rightarrow> (w1, Inl e)
          | Inr w2 \<Rightarrow>
      (case generate_svg_bytes (qr_make lib) (arg_payload a) (arg_size a) safe_fg safe_bg
              (arg_module_style a) (arg_eye_style a) frame (arg_frame_text a) (arg_quiet_zone a) of
            Inl e \<Rightarrow> (w2, Inl e)
          | Inr svg \<Rightarrow>
      (case to_pdf_bytes (pdf_save lib) png (arg_dpi a) of
            Inl e \<Rightarrow> (w2, Inl e)
          | Inr pdf \<Rightarrow>
      (let contrast = generator_contrast_ratio safe_fg safe_bg;
           quality_warnings =
             (if contrast < 4.5 then [QLowContrast contrast] else [])
             @ (if (if arg_quiet_zone a \<noteq> 0 then arg_quiet_zone a else 4) < 4
                then [QQuietZoneBelow4] else [])
             @ (if lower (strip (arg_module_style a)) = ''thin-line'' \<and> arg_size a < 700
                then [QThinLineSmallSize] else [])
             @ (if (if arg_logo_scale a \<noteq> 0 then arg_logo_scale a else 20) > 20
                then [QLogoAbove20] else [])
       in (w2, Inr \<lparr>res_path = file_path, res_bytes = png, res_svg_bytes = svg,
                    res_pdf_bytes = pdf, res_contrast_ratio = contrast,
                    res_quality_warnings = quality_warnings\<rparr>)))))))))"

section \<open>The safe-mode policy as the specification words it\<close>






definition design_vars :: "QRDesign \<Rightarrow> safe_vars" where
  \<comment> \<open>the fields of a resolved design that the corrections concern\<close>
  "design_vars d = \<lparr>v_fg = fg d, v_bg = bg d, v_module = module_style d,
     v_quiet_zone = quiet_zone d, v_contrast = contrast_ratio d,
     v_safe_applied = safe_mode_applied d\<rparr>"

section \<open>The presets of the theme table\<close>



section \<open>Instances for evaluation\<close>

text \<open>
  The theme table of \<open>utils.qr_config\<close> is a parameter of every statement below.  To run the
  model on concrete calls, a small table with a black-on-white \<open>classic\<close> preset is fixed
  here.  \<open>stub_libs\<close> lets the libraries succeed with fixed outputs.
\<close>

definition classic_conf :: py_dict where
  "classic_conf = [''fg'' \<mapsto> PyStr ''#000000'', ''bg'' \<mapsto> PyStr ''#FFFFFF'',
     ''module_style'' \<mapsto> PyStr ''square'', ''eye_style'' \<mapsto> PyStr ''square'']"

definition sample_config :: qr_config where
  "sample_config = \<lparr>QR_THEMES = [''classic'' \<mapsto> classic_conf],
     get_qr_style = (\<lambda>k. classic_conf)\<rparr>"

definition stub_libs :: "unit libs" where
  "stub_libs = \<lparr>qr_make = (\<lambda>payload b. Inr [[True]]),
     compose_image = (\<lambda>w qr f b overlays frame a. Inr ()),
     png_encode = (\<lambda>img. Inr ''PNG''),
     pdf_save = (\<lambda>png d. Inr ''PDF'')\<rparr>"

definition empty_fs :: filesystem where
  "empty_fs = \<lparr>fs_dirs = {}, fs_files = Map.empty\<rparr>"

definition stub_svg :: string where
  \<comment> \<open>the SVG text for the one-module matrix of \<open>stub_libs\<close> at the default arguments\<close>
  \<open>stub_svg = concat
     [''<?xml version="1.0" encoding="UTF-8"?>'',
      ''<svg xmlns="http://www.w3.org/2000/svg" width="624" height="624" viewBox="0 0 624 624">'',
      ''<rect x="0" y="0" width="624" height="624" fill="#FFFFFF" />'',
      ''<rect x="12" y="12" width="600" height="600" fill="#FFFFFF" />'',
      ''<rect x="12" y="12" width="600" height="600" fill="#0D2A78" />'',
      ''</svg>'']\<close>

section \<open>Facts about the resolver\<close>

lemmas string_eval =
  strip_def isspace_def lstrip_char_def lower_def lower_char_def py_int_str_def digit_val_def
  str_int_def str_nat.simps Let_def

lemmas resolver_eval =
  resolve_design_def style_key_of_def output_of_def select_style_def safe_enabled_of_def
  collect_warnings_def normalize_size_def PRESET_EXPORT_CONFIG_def kwargs_def py_or_def
  dict_item_def dict_get_def

lemma preset_cases:
  "PRESET_EXPORT_CONFIG k = Some p \<Longrightarrow>
     (k = ''web'' \<and> p = \<lparr>preset_size = 600, preset_dpi = 144, preset_quiet_zone = 4\<rparr>)
   \<or> (k = ''print'' \<and> p = \<lparr>preset_size = 1200, preset_dpi = 300, preset_quiet_zone = 6\<rparr>)
   \<or> (k = ''sticker'' \<and> p = \<lparr>preset_size = 900, preset_dpi = 300, preset_quiet_zone = 6\<rparr>)
   \<or> (k = ''poster'' \<and> p = \<lparr>preset_size = 1800, preset_dpi = 300, preset_quiet_zone = 8\<rparr>)"
  unfolding PRESET_EXPORT_CONFIG_def
  by (simp split: if_splits)

lemma preset_web:
  "PRESET_EXPORT_CONFIG ''web''
     = Some \<lparr>preset_size = 600, preset_dpi = 144, preset_quiet_zone = 4\<rparr>"
  by (simp add: PRESET_EXPORT_CONFIG_def)

lemma output_of_preset: "\<exists>p. PRESET_EXPORT_CONFIG (output_of v) = Some p"
  unfolding output_of_def Let_def
  by (auto simp: preset_web)

lemma py_int_error: "py_int v = Inl e \<Longrightarrow> e = TypeError \<or> e = ValueError"
  by (cases v) (auto split: option.splits)

lemma normalize_size_bounds: "normalize_size r p = Inr n \<Longrightarrow> 200 \<le> n \<and> n \<le> 2000"
  unfolding normalize_size_def Let_def
  by (auto split: option.splits sum.splits py_error.splits)

lemma normalize_size_total: "\<exists>n. normalize_size r p = Inr n"
  unfolding normalize_size_def Let_def
  by (auto simp: preset_web split: sum.splits py_error.splits dest: py_int_error)

lemma safe_mode_block_quiet_zone:
  "v_quiet_zone (safe_mode_block en qr_px s)
     = (if en then max 4 (v_quiet_zone s) else v_quiet_zone s)"
  by (simp add: safe_mode_block_def Let_def)

lemma resolve_design_Inr:
  assumes "resolve_design cfg a = Inr d"
  shows "\<exists>p f b m e qr_px scale s.
    PRESET_EXPORT_CONFIG (output_of (raw_output_preset a)) = Some p
    \<and> select_style (style_key_of cfg (raw_style a))
        (get_qr_style cfg (style_key_of cfg (raw_style a))) a = Inr (f, b, m, e)
    \<and> normalize_size (raw_qr_size a) (PyStr (output_of (raw_output_preset a))) = Inr qr_px
    \<and> py_int (py_or (raw_logo_scale a) (PyInt 20)) = Inr scale
    \<and> s = safe_mode_block (safe_enabled_of (raw_safe_mode a)) qr_px
           \<lparr>v_fg = f, v_bg = b, v_module = m,
            v_quiet_zone = max 2 (min (preset_quiet_zone p) 12),
            v_contrast = design_contrast_ratio f b, v_safe_applied = False\<rparr>
    \<and> d = \<lparr>style = style_key_of cfg (raw_style a), fg = v_fg s, bg = v_bg s,
           module_style = v_module s, eye_style = e, qr_size = qr_px,
           output_preset = output_of (raw_output_preset a),
           export_format =
             (if lower (strip (py_str (py_or (raw_export_format a) (PyStr ''png''))))
                 \<in> {''png'', ''svg'', ''pdf'', ''zip''}
              then lower (strip (py_str (py_or (raw_export_format a) (PyStr ''png''))))
              else ''png''),
           frame_style = lower (strip (py_str (py_or (raw_frame_style a) (PyStr ''none'')))),
           logo_scale = max 8 (min scale 20),
           logo_bg_mode =
             lower (strip (py_str (py_or (raw_logo_bg_mode a) (PyStr ''auto-white'')))),
           quiet_zone = v_quiet_zone s,
           dpi = max 72 (min (preset_dpi p) 600),
           contrast_ratio = v_contrast s,
           warnings = collect_warnings (raw_frame_style a) qr_px
                        (safe_enabled_of (raw_safe_mode a)) s,
           safe_mode = safe_enabled_of (raw_safe_mode a),
           safe_mode_applied = v_safe_applied s\<rparr>"
proof (cases "PRESET_EXPORT_CONFIG (output_of (raw_output_preset a))")
  case None
  with assms show ?thesis by (simp add: resolve_design_def Let_def)
next
  case (Some p)
  show ?thesis
  proof (cases "select_style (style_key_of cfg (raw_style a))
        (get_qr_style cfg (style_key_of cfg (raw_style a))) a")
    case (Inl e)
    with assms Some show ?thesis by (simp add: resolve_design_def Let_def)
  next
    case (Inr t)
    obtain f b m e where t: "t = (f, b, m, e)" by (cases t) auto
    show ?thesis
    proof (cases "normalize_size (raw_qr_size a) (PyStr (output_of (raw_output_preset a)))")
      case (Inl e')
      with assms Some Inr t show ?thesis by (simp add: resolve_design_def Let_def)
    next
      case sz: (Inr qr_px)
      show ?thesis
      proof (cases "py_int (py_or (raw_logo_scale a) (PyInt 20))")
        case (Inl e')
        with assms Some Inr t sz show ?thesis by (simp add: resolve_design_def Let_def)
      next
        case sc: (Inr scale)
        from assms Some Inr t sz sc show ?thesis
          by (simp add: resolve_design_def Let_def eq_commute [of _ d])
      qed
    qed
  qed
qed

lemma contrast_black_white: "design_contrast_ratio ''#000000'' ''#FFFFFF'' = 21"
  by (simp add: design_contrast_ratio_def design_relative_luminance_def design_hex_to_rgb_def
      design_comp_def string_eval)

lemma resolve_design_qr_size:
  assumes "resolve_design cfg a = Inr d"
  shows "normalize_size (raw_qr_size a) (PyStr (output_of (raw_output_preset a)))
           = Inr (qr_size d)"
  using resolve_design_Inr [OF assms] by auto

lemma resolve_design_logo_scale:
  assumes "resolve_design cfg a = Inr d"
  shows "\<exists>scale. py_int (py_or (raw_logo_scale a) (PyInt 20)) = Inr scale
           \<and> logo_scale d = max 8 (min scale 20)"
  using resolve_design_Inr [OF assms] by auto

lemma resolve_design_preset:
  assumes "resolve_design cfg a = Inr d"
  shows "\<exists>p. PRESET_EXPORT_CONFIG (output_preset d) = Some p
           \<and> output_preset d = output_of (raw_output_preset a)
           \<and> dpi d = max 72 (min (preset_dpi p) 600)
           \<and> quiet_zone d =
               (if safe_mode d then max 4 (max 2 (min (preset_quiet_zone p) 12))
                else max 2 (min (preset_quiet_zone p) 12))"
  using resolve_design_Inr [OF assms] by (auto simp: safe_mode_block_quiet_zone)

section \<open>Numeric invariants of a resolved design\<close>

text \<open>
  C2.  Every design that \<open>resolve_design\<close> returns has its size between 200 and 2000, its quiet
  zone between 2 and 12, its dpi between 72 and 600 and its logo scale between 8 and 20,
  whatever the raw arguments were.
\<close>

theorem resolve_design_numeric_invariants:
  assumes "resolve_design cfg a = Inr d"
  shows "200 \<le> qr_size d \<and> qr_size d \<le> 2000 \<and> 2 \<le> quiet_zone d \<and> quiet_zone d \<le> 12
       \<and> 72 \<le> dpi d \<and> dpi d \<le> 600 \<and> 8 \<le> logo_scale d \<and> logo_scale d \<le> 20"
proof -
  have "200 \<le> qr_size d \<and> qr_size d \<le> 2000"
    using resolve_design_qr_size [OF assms] by (rule normalize_size_bounds)
  moreover have "8 \<le> logo_scale d \<and> logo_scale d \<le> 20"
    using resolve_design_logo_scale [OF assms] by auto
  moreover have "2 \<le> quiet_zone d \<and> quiet_zone d \<le> 12 \<and> 72 \<le> dpi d \<and> dpi d \<le> 600"
    using resolve_design_preset [OF assms] by auto
  ultimately show ?thesis by simp
qed

theorem resolve_design_numeric_invariants_witness:
  "resolve_design sample_config
     ((kwargs (PyStr ''classic''))\<lparr>raw_qr_size := PyInt 5000, raw_logo_scale := PyInt (- 3)\<rparr>)
   = Inr \<lparr>style = ''classic'', fg = ''#000000'', bg = ''#FFFFFF'', module_style = ''square'',
          eye_style = ''square'', qr_size = 2000, output_preset = ''web'', export_format = ''png'',
          frame_style = ''none'', logo_scale = 8, logo_bg_mode = ''auto-white'', quiet_zone = 4,
          dpi = 144, contrast_ratio = 21, warnings = [], safe_mode = False,
          safe_mode_applied = False\<rparr>
   \<and> (200::int) \<le> 2000 \<and> (2::int) \<le> 4 \<and> (4::int) \<le> 12 \<and> (72::int) \<le> 144 \<and> (144::int) \<le> 600
   \<and> (8::int) \<le> 20"
proof -
  have run: "resolve_design sample_config
     ((kwargs (PyStr ''classic''))\<lparr>raw_qr_size := PyInt 5000, raw_logo_scale := PyInt (- 3)\<rparr>)
   = Inr \<lparr>style = ''classic'', fg = ''#000000'', bg = ''#FFFFFF'', module_style = ''square'',
          eye_style = ''square'', qr_size = 2000, output_preset = ''web'', export_format = ''png'',
          frame_style = ''none'', logo_scale = 8, logo_bg_mode = ''auto-white'', quiet_zone = 4,
          dpi = 144, contrast_ratio = 21, warnings = [], safe_mode = False,
          safe_mode_applied = False\<rparr>"
    by (simp add: resolver_eval string_eval sample_config_def classic_conf_def
        contrast_black_white safe_mode_block_def)
  from resolve_design_numeric_invariants [OF run] run show ?thesis by simp
qed

section \<open>Quiet zone and dpi follow the output preset\<close>

text \<open>
  C10.  The resolver has no quiet-zone or dpi argument.  In every resolved design the output
  preset is the one read from \<open>output_preset\<close> alone, and the quiet zone and dpi are 4 and 144
  for web, 6 and 300 for print and for sticker, 8 and 300 for poster; this holds with safe mode
  on as well, whose raise-to-4 step therefore never changes them.
\<close>

theorem quiet_zone_dpi_by_output_preset:
  assumes "resolve_design cfg a = Inr d"
  shows "output_preset d = output_of (raw_output_preset a)
       \<and> ((output_preset d = ''web'' \<and> quiet_zone d = 4 \<and> dpi d = 144)
        \<or> (output_preset d = ''print'' \<and> quiet_zone d = 6 \<and> dpi d = 300)
        \<or> (output_preset d = ''sticker'' \<and> quiet_zone d = 6 \<and> dpi d = 300)
        \<or> (output_preset d = ''poster'' \<and> quiet_zone d = 8 \<and> dpi d = 300))"
proof -
  from resolve_design_preset [OF assms] obtain p where
    p: "PRESET_EXPORT_CONFIG (output_preset d) = Some p"
    and out: "output_preset d = output_of (raw_output_preset a)"
    and dpi: "dpi d = max 72 (min (preset_dpi p) 600)"
    and qz: "quiet_zone d =
               (if safe_mode d then max 4 (max 2 (min (preset_quiet_zone p) 12))
                else max 2 (min (preset_quiet_zone p) 12))"
    by blast
  from preset_cases [OF p] have
    "(output_preset d = ''web'' \<and> quiet_zone d = 4 \<and> dpi d = 144)
        \<or> (output_preset d = ''print'' \<and> quiet_zone d = 6 \<and> dpi d = 300)
        \<or> (output_preset d = ''sticker'' \<and> quiet_zone d = 6 \<and> dpi d = 300)
        \<or> (output_preset d = ''poster'' \<and> quiet_zone d = 8 \<and> dpi d = 300)"
    using dpi qz by (elim disjE conjE) simp_all
  with out show ?thesis by simp
qed

theorem quiet_zone_dpi_by_output_preset_witness:
  "resolve_design sample_config
     ((kwargs (PyStr ''classic''))\<lparr>raw_output_preset := PyStr '' Poster'',
        raw_safe_mode := PyStr ''yes''\<rparr>)
   = Inr \<lparr>style = ''classic'', fg = ''#000000'', bg = ''#FFFFFF'', module_style = ''square'',
          eye_style = ''square'', qr_size = 1800, output_preset = ''poster'',
          export_format = ''png'', frame_style = ''none'', logo_scale = 20,
          logo_bg_mode = ''auto-white'', quiet_zone = 8, dpi = 300, contrast_ratio = 21,
          warnings = [], safe_mode = True, safe_mode_applied = False\<rparr>
   \<and> output_of (PyStr '' Poster'') = ''poster''"
proof -
  have run: "resolve_design sample_config
     ((kwargs (PyStr ''classic''))\<lparr>raw_output_preset := PyStr '' Poster'',
        raw_safe_mode := PyStr ''yes''\<rparr>)
   = Inr \<lparr>style = ''classic'', fg = ''#000000'', bg = ''#FFFFFF'', module_style = ''square'',
          eye_style = ''square'', qr_size = 1800, output_preset = ''poster'',
          export_format = ''png'', frame_style = ''none'', logo_scale = 20,
          logo_bg_mode = ''auto-white'', quiet_zone = 8, dpi = 300, contrast_ratio = 21,
          warnings = [], safe_mode = True, safe_mode_applied = False\<rparr>"
    by (simp add: resolver_eval string_eval sample_config_def classic_conf_def
        contrast_black_white safe_mode_block_def)
  from quiet_zone_dpi_by_output_preset [OF run] run show ?thesis by simp
qed


section \<open>One contrast formula in both modules\<close>

lemma generator_hex_to_rgb_eq: "generator_hex_to_rgb v = design_hex_to_rgb v"
  by (simp add: generator_hex_to_rgb_def design_hex_to_rgb_def)

lemma generator_conv_eq: "generator_conv v = design_comp v"
  by (simp add: generator_conv_def design_comp_def)

lemma generator_relative_luminance_eq:
  "generator_relative_luminance rgb = design_relative_luminance rgb"
  by (simp add: generator_relative_luminance_def design_relative_luminance_def
      generator_conv_eq)

lemma generator_contrast_ratio_eq: "generator_contrast_ratio f b = design_contrast_ratio f b"
  by (simp add: generator_contrast_ratio_def design_contrast_ratio_def
      generator_relative_luminance_eq generator_hex_to_rgb_eq)

text \<open>
  C9.  For every pair of colour strings the contrast computed in \<open>qr_generator.py\<close> equals the
  one computed in \<open>qr_design.py\<close>: the two modules parse a colour to the same channels, with
  the same fallback, convert a channel by the same gamma rule, weigh the channels alike and
  form the same ratio \<open>(light + 0.05) / (dark + 0.05)\<close>.
\<close>

theorem contrast_ratio_agrees:
  "generator_contrast_ratio f b = design_contrast_ratio f b
   \<and> generator_hex_to_rgb f = design_hex_to_rgb f
   \<and> generator_conv v = design_comp v
   \<and> design_comp v = (if real_of_int v / 255 \<le> 0.03928 then real_of_int v / 255 / 12.92
                       else ((real_of_int v / 255 + 0.055) / 1.055) powr 2.4)
   \<and> generator_relative_luminance (r, g, bl) = design_relative_luminance (r, g, bl)
   \<and> design_relative_luminance (r, g, bl)
        = 0.2126 * design_comp r + 0.7152 * design_comp g + 0.0722 * design_comp bl
   \<and> design_contrast_ratio f b =
        (max (design_relative_luminance (design_hex_to_rgb f))
             (design_relative_luminance (design_hex_to_rgb b)) + 0.05)
        / (min (design_relative_luminance (design_hex_to_rgb f))
               (design_relative_luminance (design_hex_to_rgb b)) + 0.05)"
  by (simp add: generator_contrast_ratio_def design_contrast_ratio_def
      generator_relative_luminance_def design_relative_luminance_def
      generator_hex_to_rgb_def design_hex_to_rgb_def generator_conv_def design_comp_def Let_def)

section \<open>A requested quiet zone of 0\<close>

lemma build_qr_border_range: "2 \<le> build_qr_border qz \<and> build_qr_border qz \<le> 12"
  by (simp add: build_qr_border_def)

lemma resolve_design_quiet_zone_values:
  assumes "resolve_design cfg a = Inr d"
  shows "quiet_zone d = 4 \<or> quiet_zone d = 6 \<or> quiet_zone d = 8"
proof -
  from resolve_design_preset [OF assms] obtain p where
    p: "PRESET_EXPORT_CONFIG (output_preset d) = Some p"
    and qz: "quiet_zone d =
               (if safe_mode d then max 4 (max 2 (min (preset_quiet_zone p) 12))
                else max 2 (min (preset_quiet_zone p) 12))"
    by blast
  from preset_cases [OF p] qz show ?thesis
    by (elim disjE conjE) simp_all
qed

text \<open>
  C8, as stated, fails in the matrix builder: a quiet zone of 0 counts as missing there and
  becomes the default border of 4, not the floor of 2.
\<close>

theorem quiet_zone_zero_counterexample:
  "build_qr_border 0 = 4 \<and> build_qr_border 0 \<noteq> 2"
  by (simp add: build_qr_border_def)

text \<open>
  C8, amended.  The resolver takes no quiet-zone request: the quiet zone of a resolved design
  is its output preset's 4, 6 or 8, which the matrix builder uses unchanged as the border.
  In the matrix builder a requested quiet zone of 0 is treated as missing and gives the
  default border 4, whether or not safe mode is on; every other request is clamped into the
  range from 2 to 12, so that 1 gives the floor 2.
\<close>

theorem quiet_zone_request_handling:
  assumes "resolve_design cfg a = Inr d"
  shows "(quiet_zone d = 4 \<or> quiet_zone d = 6 \<or> quiet_zone d = 8)
       \<and> build_qr_border (quiet_zone d) = quiet_zone d
       \<and> build_qr_border 0 = 4
       \<and> build_qr_border 1 = 2
       \<and> build_qr_border qz = (if qz = 0 then 4 else max 2 (min qz 12))
       \<and> (case build_qr enc payload qz of Inl e \<Rightarrow> True
            | Inr qr \<Rightarrow> border qr = build_qr_border qz)"
proof -
  have "build_qr_border (quiet_zone d) = quiet_zone d"
    using resolve_design_quiet_zone_values [OF assms]
    by (auto simp: build_qr_border_def)
  moreover have "case build_qr enc payload qz of Inl e \<Rightarrow> True
            | Inr qr \<Rightarrow> border qr = build_qr_border qz"
    by (simp add: build_qr_def Let_def split: sum.splits)
  ultimately show ?thesis
    using resolve_design_quiet_zone_values [OF assms]
    by (simp add: build_qr_border_def)
qed

theorem quiet_zone_request_handling_witness:
  "resolve_design sample_config
     ((kwargs (PyStr ''classic''))\<lparr>raw_output_preset := PyStr ''print'',
        raw_safe_mode := PyBool True\<rparr>)
   = Inr \<lparr>style = ''classic'', fg = ''#000000'', bg = ''#FFFFFF'', module_style = ''square'',
          eye_style = ''square'', qr_size = 1200, output_preset = ''print'',
          export_format = ''png'', frame_style = ''none'', logo_scale = 20,
          logo_bg_mode = ''auto-white'', quiet_zone = 6, dpi = 300, contrast_ratio = 21,
          warnings = [], safe_mode = True, safe_mode_applied = False\<rparr>
   \<and> build_qr_border 6 = 6
   \<and> build_qr (qr_make stub_libs) ''hello'' 0 = Inr \<lparr>border = 4, get_matrix = [[True]]\<rparr>"
proof -
  have run: "resolve_design sample_config
     ((kwargs (PyStr ''classic''))\<lparr>raw_output_preset := PyStr ''print'',
        raw_safe_mode := PyBool True\<rparr>)
   = Inr \<lparr>style = ''classic'', fg = ''#000000'', bg = ''#FFFFFF'', module_style = ''square'',
          eye_style = ''square'', qr_size = 1200, output_preset = ''print'',
          export_format = ''png'', frame_style = ''none'', logo_scale = 20,
          logo_bg_mode = ''auto-white'', quiet_zone = 6, dpi = 300, contrast_ratio = 21,
          warnings = [], safe_mode = True, safe_mode_applied = False\<rparr>"
    by (simp add: resolver_eval string_eval sample_config_def classic_conf_def
        contrast_black_white safe_mode_block_def)
  from quiet_zone_request_handling [OF run, of 0 "qr_make stub_libs" "''hello''"] run
  show ?thesis
    by (simp add: build_qr_def stub_libs_def Let_def)
qed


section \<open>A logo scale that is not a number\<close>

text \<open>
  C4.  The size goes through \<open>_normalize_size\<close>, which catches the failure of \<open>int\<close> and falls
  back to the preset's size.  The logo scale is converted by a bare \<open>int\<close> on line 160: for the
  text \<open>abc\<close> the conversion raises, and \<open>resolve_design\<close> raises with it, whatever the theme
  table and the other arguments are.
\<close>

theorem logo_scale_text_raises:
  "isl (resolve_design cfg (a\<lparr>raw_logo_scale := PyStr ''abc''\<rparr>))
   \<and> resolve_design sample_config ((kwargs (PyStr ''classic''))\<lparr>raw_logo_scale := PyStr ''abc''\<rparr>)
       = Inl ValueError
   \<and> normalize_size (PyStr ''abc'') (PyStr ''web'') = Inr 600"
proof -
  have abc: "py_int (py_or (PyStr ''abc'') (PyInt 20)) = Inl ValueError"
    by (simp add: py_or_def string_eval)
  have "isl (resolve_design cfg (a\<lparr>raw_logo_scale := PyStr ''abc''\<rparr>))"
  proof (cases "resolve_design cfg (a\<lparr>raw_logo_scale := PyStr ''abc''\<rparr>)")
    case (Inl e)
    then show ?thesis by simp
  next
    case (Inr d)
    from resolve_design_logo_scale [OF Inr] abc show ?thesis by simp
  qed
  moreover have "resolve_design sample_config
      ((kwargs (PyStr ''classic''))\<lparr>raw_logo_scale := PyStr ''abc''\<rparr>) = Inl ValueError"
    by (simp add: resolver_eval string_eval sample_config_def classic_conf_def
        contrast_black_white safe_mode_block_def)
  moreover have "normalize_size (PyStr ''abc'') (PyStr ''web'') = Inr 600"
    by (simp add: normalize_size_def PRESET_EXPORT_CONFIG_def py_or_def string_eval)
  ultimately show ?thesis by simp
qed

section \<open>Preset styles and caller overrides\<close>

lemma select_style_preset:
  assumes "k \<noteq> ''custom''"
  shows "select_style k conf a =
     (case conf ''fg'' of None \<Rightarrow> Inl KeyError
      | Some vf \<Rightarrow>
        (case conf ''bg'' of None \<Rightarrow> Inl KeyError
         | Some vb \<Rightarrow>
           Inr (py_str vf, py_str vb,
                py_str (py_or (dict_get conf ''module_style'') (PyStr ''square'')),
                py_str (py_or (dict_get conf ''eye_style'') (PyStr ''square'')))))"
  using assms by (simp add: select_style_def dict_item_def split: option.splits)

lemma select_style_custom:
  assumes "select_style ''custom'' conf a = Inr (f, b, m, e)"
  shows "m = py_str (py_or (py_or (raw_module_style a) (dict_get conf ''module_style''))
                      (PyStr ''square''))
       \<and> e = py_str (py_or (py_or (raw_eye_style a) (dict_get conf ''eye_style''))
                        (PyStr ''square''))"
  using assms by (simp add: select_style_def split: sum.splits)

lemma safe_mode_block_module:
  "v_module (safe_mode_block en q s)
     = (if en \<and> v_module s = ''thin-line'' \<and> q < 700 then ''square'' else v_module s)"
  by (simp add: safe_mode_block_def Let_def)

lemma safe_mode_block_not_applied:
  "\<not> v_safe_applied (safe_mode_block en q s) \<Longrightarrow> safe_mode_block en q s = s"
  by (auto simp: safe_mode_block_def Let_def split: if_splits)


lemma resolve_design_vars:
  assumes "resolve_design cfg a = Inr d"
  shows "\<exists>p f b m e.
      PRESET_EXPORT_CONFIG (output_preset d) = Some p
    \<and> select_style (style d) (get_qr_style cfg (style d)) a = Inr (f, b, m, e)
    \<and> style d = style_key_of cfg (raw_style a)
    \<and> safe_mode d = safe_enabled_of (raw_safe_mode a)
    \<and> eye_style d = e
    \<and> design_vars d = safe_mode_block (safe_mode d) (qr_size d)
           \<lparr>v_fg = f, v_bg = b, v_module = m,
            v_quiet_zone = max 2 (min (preset_quiet_zone p) 12),
            v_contrast = design_contrast_ratio f b, v_safe_applied = False\<rparr>"
  using resolve_design_Inr [OF assms] by (auto simp: design_vars_def)

lemma design_vars_simps:
  "v_fg (design_vars d) = fg d" "v_bg (design_vars d) = bg d"
  "v_module (design_vars d) = module_style d" "v_quiet_zone (design_vars d) = quiet_zone d"
  "v_contrast (design_vars d) = contrast_ratio d"
  "v_safe_applied (design_vars d) = safe_mode_applied d"
  by (simp_all add: design_vars_def)

lemma resolve_design_preset_values:
  assumes key: "style_key_of cfg (raw_style a) \<noteq> ''custom''"
    and run: "resolve_design cfg a = Inr d"
  shows "style d \<noteq> ''custom''
     \<and> eye_style d
         = py_str (py_or (dict_get (get_qr_style cfg (style d)) ''eye_style'') (PyStr ''square''))
     \<and> (\<not> safe_mode_applied d \<longrightarrow>
          map_option py_str (get_qr_style cfg (style d) ''fg'') = Some (fg d)
        \<and> map_option py_str (get_qr_style cfg (style d) ''bg'') = Some (bg d)
        \<and> module_style d
            = py_str (py_or (dict_get (get_qr_style cfg (style d)) ''module_style'')
                            (PyStr ''square'')))"
proof -
  let ?conf = "get_qr_style cfg (style d)"
  from resolve_design_vars [OF run] obtain p f b m e where
    "PRESET_EXPORT_CONFIG (output_preset d) = Some p"
    and sel: "select_style (style d) ?conf a = Inr (f, b, m, e)"
    and sty: "style d = style_key_of cfg (raw_style a)"
    and "safe_mode d = safe_enabled_of (raw_safe_mode a)"
    and eye: "eye_style d = e"
    and vars: "design_vars d = safe_mode_block (safe_mode d) (qr_size d)
           \<lparr>v_fg = f, v_bg = b, v_module = m,
            v_quiet_zone = max 2 (min (preset_quiet_zone p) 12),
            v_contrast = design_contrast_ratio f b, v_safe_applied = False\<rparr>"
    by blast
  from key sty have nc: "style d \<noteq> ''custom''" by simp
  from sel nc have conf:
    "map_option py_str (?conf ''fg'') = Some f" "map_option py_str (?conf ''bg'') = Some b"
    "m = py_str (py_or (dict_get ?conf ''module_style'') (PyStr ''square''))"
    "e = py_str (py_or (dict_get ?conf ''eye_style'') (PyStr ''square''))"
    by (auto simp: select_style_preset split: option.splits)
  have "fg d = f \<and> bg d = b \<and> module_style d = m" if "\<not> safe_mode_applied d"
  proof -
    from that vars have "\<not> v_safe_applied (safe_mode_block (safe_mode d) (qr_size d)
           \<lparr>v_fg = f, v_bg = b, v_module = m,
            v_quiet_zone = max 2 (min (preset_quiet_zone p) 12),
            v_contrast = design_contrast_ratio f b, v_safe_applied = False\<rparr>)"
      by (metis design_vars_simps(6))
    from safe_mode_block_not_applied [OF this] vars
    have "design_vars d = \<lparr>v_fg = f, v_bg = b, v_module = m,
            v_quiet_zone = max 2 (min (preset_quiet_zone p) 12),
            v_contrast = design_contrast_ratio f b, v_safe_applied = False\<rparr>"
      by simp
    then show ?thesis by (simp add: design_vars_def)
  qed
  with conf eye nc show ?thesis by simp
qed


section \<open>Unrecognised enum inputs\<close>

lemma preset_dom:
  "PRESET_EXPORT_CONFIG k \<noteq> None \<longleftrightarrow> k \<in> {''web'', ''print'', ''sticker'', ''poster''}"
  by (simp add: PRESET_EXPORT_CONFIG_def)

lemma resolve_design_enums:
  assumes "resolve_design cfg a = Inr d"
  shows "style d = style_key_of cfg (raw_style a)
       \<and> output_preset d = output_of (raw_output_preset a)
       \<and> export_format d =
             (if lower (strip (py_str (py_or (raw_export_format a) (PyStr ''png''))))
                 \<in> {''png'', ''svg'', ''pdf'', ''zip''}
              then lower (strip (py_str (py_or (raw_export_format a) (PyStr ''png''))))
              else ''png'')
       \<and> frame_style d = lower (strip (py_str (py_or (raw_frame_style a) (PyStr ''none''))))"
  using resolve_design_Inr [OF assms] by auto

lemma resolve_design_custom_values:
  assumes run: "resolve_design cfg a = Inr d" and custom: "style d = ''custom''"
  shows "eye_style d
           = py_str (py_or (py_or (raw_eye_style a)
                                  (dict_get (get_qr_style cfg ''custom'') ''eye_style''))
                           (PyStr ''square''))
       \<and> module_style d
           = (let m = py_str (py_or (py_or (raw_module_style a)
                                  (dict_get (get_qr_style cfg ''custom'') ''module_style''))
                           (PyStr ''square''))
              in if safe_mode d \<and> m = ''thin-line'' \<and> qr_size d < 700 then ''square'' else m)"
proof -
  from resolve_design_vars [OF run] obtain p f b m e where
    "PRESET_EXPORT_CONFIG (output_preset d) = Some p"
    and sel: "select_style (style d) (get_qr_style cfg (style d)) a = Inr (f, b, m, e)"
    and "style d = style_key_of cfg (raw_style a)"
    and "safe_mode d = safe_enabled_of (raw_safe_mode a)"
    and eye: "eye_style d = e"
    and vars: "design_vars d = safe_mode_block (safe_mode d) (qr_size d)
           \<lparr>v_fg = f, v_bg = b, v_module = m,
            v_quiet_zone = max 2 (min (preset_quiet_zone p) 12),
            v_contrast = design_contrast_ratio f b, v_safe_applied = False\<rparr>"
    by blast
  from sel custom have me:
    "m = py_str (py_or (py_or (raw_module_style a)
                  (dict_get (get_qr_style cfg ''custom'') ''module_style'')) (PyStr ''square''))
     \<and> e = py_str (py_or (py_or (raw_eye_style a)
                    (dict_get (get_qr_style cfg ''custom'') ''eye_style'')) (PyStr ''square''))"
    by (intro select_style_custom [of _ _ f b]) simp
  have "module_style d = v_module (design_vars d)"
    by (simp add: design_vars_def)
  also have "\<dots> = (if safe_mode d \<and> m = ''thin-line'' \<and> qr_size d < 700 then ''square'' else m)"
    unfolding vars by (simp add: safe_mode_block_module)
  finally show ?thesis using me eye by (simp add: Let_def)
qed

text \<open>
  C5, as stated, fails for the module, eye and frame styles.  With style \<open>custom\<close> the resolver
  keeps an unknown module style and eye style exactly as supplied, and an unknown frame style
  trimmed and in lower case; none of them becomes \<open>square\<close> or \<open>none\<close>.
\<close>

theorem unknown_shape_styles_counterexample:
  "resolve_design sample_config
     ((kwargs (PyStr ''custom''))\<lparr>raw_module_style := PyStr ''Hexagon'',
        raw_eye_style := PyStr ''star'', raw_frame_style := PyStr '' Banner''\<rparr>)
   = Inr \<lparr>style = ''custom'', fg = ''#000000'', bg = ''#FFFFFF'', module_style = ''Hexagon'',
          eye_style = ''star'', qr_size = 600, output_preset = ''web'', export_format = ''png'',
          frame_style = ''banner'', logo_scale = 20, logo_bg_mode = ''auto-white'', quiet_zone = 4,
          dpi = 144, contrast_ratio = 21, warnings = [], safe_mode = False,
          safe_mode_applied = False\<rparr>
   \<and> ''Hexagon'' \<noteq> ''square'' \<and> ''star'' \<noteq> ''square'' \<and> ''banner'' \<noteq> ''none''"
  by (simp add: resolver_eval string_eval sample_config_def classic_conf_def
      contrast_black_white safe_mode_block_def)

text \<open>
  C5, amended.  An unknown style resolves to \<open>classic\<close>, an unknown output preset to \<open>web\<close>
  and an unknown export format to \<open>png\<close>.  The module, eye and frame styles are not checked
  against their enums: the frame style is the supplied text, trimmed and in lower case
  (\<open>none\<close> when missing or empty); for style \<open>custom\<close> the eye style is the supplied text as
  given (else the custom preset's, else \<open>square\<close>), and so is the module style, except that
  safe mode turns \<open>thin-line\<close> into \<open>square\<close> below size 700; for any other style both are the
  preset's.
\<close>

theorem unknown_enum_inputs:
  assumes "resolve_design cfg a = Inr d"
  shows "(let k = lower (strip (py_str (py_or (raw_style a) (PyStr ''modern''))));
              k = (if k = [] then ''modern'' else k)
          in style d = (if k \<noteq> ''custom'' \<and> QR_THEMES cfg k = None then ''classic'' else k))
       \<and> (let out = lower (strip (py_str (py_or (raw_output_preset a) (PyStr ''web''))))
          in output_preset d
               = (if out \<in> {''web'', ''print'', ''sticker'', ''poster''} then out else ''web''))
       \<and> (let ex = lower (strip (py_str (py_or (raw_export_format a) (PyStr ''png''))))
          in export_format d
               = (if ex \<in> {''png'', ''svg'', ''pdf'', ''zip''} then ex else ''png''))
       \<and> frame_style d = lower (strip (py_str (py_or (raw_frame_style a) (PyStr ''none''))))
       \<and> (style d = ''custom'' \<longrightarrow>
            eye_style d
              = py_str (py_or (py_or (raw_eye_style a)
                                     (dict_get (get_qr_style cfg ''custom'') ''eye_style''))
                              (PyStr ''square''))
          \<and> module_style d
              = (let m = py_str (py_or (py_or (raw_module_style a)
                                     (dict_get (get_qr_style cfg ''custom'') ''module_style''))
                              (PyStr ''square''))
                 in if safe_mode d \<and> m = ''thin-line'' \<and> qr_size d < 700 then ''square'' else m))
       \<and> (style d \<noteq> ''custom'' \<longrightarrow>
            eye_style d
              = py_str (py_or (dict_get (get_qr_style cfg (style d)) ''eye_style'')
                              (PyStr ''square'')))"
proof -
  note enums = resolve_design_enums [OF assms]
  have "style d \<noteq> ''custom'' \<Longrightarrow> eye_style d
      = py_str (py_or (dict_get (get_qr_style cfg (style d)) ''eye_style'') (PyStr ''square''))"
    using resolve_design_preset_values [OF _ assms] enums by simp
  moreover have "output_of (raw_output_preset a)
      = (let out = lower (strip (py_str (py_or (raw_output_preset a) (PyStr ''web''))))
         in if out \<in> {''web'', ''print'', ''sticker'', ''poster''} then out else ''web'')"
    unfolding output_of_def Let_def preset_dom by simp
  ultimately show ?thesis
    using enums resolve_design_custom_values [OF assms]
    by (simp add: style_key_of_def Let_def)
qed

theorem unknown_enum_inputs_witness:
  "resolve_design sample_config
     ((kwargs (PyStr ''Neon''))\<lparr>raw_output_preset := PyStr ''billboard'',
        raw_export_format := PyStr ''gif''\<rparr>)
   = Inr \<lparr>style = ''classic'', fg = ''#000000'', bg = ''#FFFFFF'', module_style = ''square'',
          eye_style = ''square'', qr_size = 600, output_preset = ''web'', export_format = ''png'',
          frame_style = ''none'', logo_scale = 20, logo_bg_mode = ''auto-white'', quiet_zone = 4,
          dpi = 144, contrast_ratio = 21, warnings = [], safe_mode = False,
          safe_mode_applied = False\<rparr>
   \<and> QR_THEMES sample_config ''neon'' = None"
proof -
  have run: "resolve_design sample_config
     ((kwargs (PyStr ''Neon''))\<lparr>raw_output_preset := PyStr ''billboard'',
        raw_export_format := PyStr ''gif''\<rparr>)
   = Inr \<lparr>style = ''classic'', fg = ''#000000'', bg = ''#FFFFFF'', module_style = ''square'',
          eye_style = ''square'', qr_size = 600, output_preset = ''web'', export_format = ''png'',
          frame_style = ''none'', logo_scale = 20, logo_bg_mode = ''auto-white'', quiet_zone = 4,
          dpi = 144, contrast_ratio = 21, warnings = [], safe_mode = False,
          safe_mode_applied = False\<rparr>"
    by (simp add: resolver_eval string_eval sample_config_def classic_conf_def
        contrast_black_white safe_mode_block_def)
  from unknown_enum_inputs [OF run] run show ?thesis
    by (simp add: sample_config_def)
qed

section \<open>Contrast bounds\<close>

lemma powr_le_square:
  fixes x :: real
  assumes "0 \<le> x" "x \<le> 1"
  shows "x powr 2.4 \<le> x\<^sup>2"
proof -
  have "x powr 2.4 \<le> x powr 2"
    using assms by (intro powr_mono') auto
  also have "x powr 2 = x\<^sup>2"
    using assms by (simp add: powr_numeral)
  finally show ?thesis .
qed

lemma design_comp_gamma_bounds:
  assumes "10 < v" "v \<le> 255"
  shows "0 \<le> design_comp v"
    and "design_comp v \<le> ((real_of_int v / 255 + 0.055) / 1.055)\<^sup>2"
    and "design_comp v \<le> 1"
proof -
  let ?x = "real_of_int v / 255"
  let ?y = "(?x + 0.055) / 1.055"
  from assms have v: "11 \<le> real_of_int v" "real_of_int v \<le> 255" by linarith+
  then have x: "\<not> ?x \<le> 0.03928" "?x \<le> 1" by simp_all
  then have y: "0 \<le> ?y" "?y \<le> 1" using v by simp_all
  have c: "design_comp v = ?y powr 2.4"
    using x by (simp add: design_comp_def Let_def)
  show "0 \<le> design_comp v" unfolding c by simp
  show le: "design_comp v \<le> ?y\<^sup>2" unfolding c using y by (rule powr_le_square)
  have "?y\<^sup>2 \<le> 1" using y by (simp add: power_le_one)
  with le show "design_comp v \<le> 1" by linarith
qed

lemma design_comp_255: "design_comp 255 = 1"
  by (simp add: design_comp_def)

lemma luminance_white: "design_relative_luminance (255, 255, 255) = 1"
  by (simp add: design_relative_luminance_def design_comp_255)

lemma luminance_safe_fg:
  "0 \<le> design_relative_luminance (13, 42, 120)"
  "design_relative_luminance (13, 42, 120) \<le> 0.06"
proof -
  have r: "0 \<le> design_comp 13" "design_comp 13 \<le> 0.0102"
    using design_comp_gamma_bounds [of 13] by (simp_all add: power2_eq_square)
  have g: "0 \<le> design_comp 42" "design_comp 42 \<le> 0.0434"
    using design_comp_gamma_bounds [of 42] by (simp_all add: power2_eq_square)
  have b: "0 \<le> design_comp 120" "design_comp 120 \<le> 0.2483"
    using design_comp_gamma_bounds [of 120] by (simp_all add: power2_eq_square)
  show "0 \<le> design_relative_luminance (13, 42, 120)"
    using r g b by (simp add: design_relative_luminance_def)
  show "design_relative_luminance (13, 42, 120) \<le> 0.06"
    using r g b by (simp add: design_relative_luminance_def)
qed

lemma hex_safe_fg: "design_hex_to_rgb ''#0D2A78'' = (13, 42, 120)"
  by (simp add: design_hex_to_rgb_def string_eval)

lemma hex_white: "design_hex_to_rgb ''#FFFFFF'' = (255, 255, 255)"
  by (simp add: design_hex_to_rgb_def string_eval)

lemma safe_pair_contrast: "4.5 \<le> design_contrast_ratio ''#0D2A78'' ''#FFFFFF''"
proof -
  let ?l = "design_relative_luminance (13, 42, 120)"
  note l = luminance_safe_fg
  have "design_contrast_ratio ''#0D2A78'' ''#FFFFFF'' = (1 + 0.05) / (?l + 0.05)"
    using l by (simp add: design_contrast_ratio_def hex_safe_fg hex_white luminance_white
        Let_def max_def min_def)
  also have "4.5 \<le> (1 + 0.05) / (?l + 0.05)"
    using l by (simp add: le_divide_eq)
  finally show ?thesis by simp
qed








section \<open>The safe-mode corrections\<close>









section \<open>Eye overlays in the SVG output\<close>

lemma svg_eye_parts_overlay:
  assumes "eye \<in> {''rounded'', ''ring'', ''target''}"
  shows "svg_eye_parts eye qr n pad cell f b =
     map (\<lambda>(mx, my). svg_eye_overlay eye (pad + mx * cell) (pad + my * cell) (cell * 7) f b)
       [(border qr, border qr), (n - border qr - 7, border qr), (border qr, n - border qr - 7)]"
proof -
  from assms consider "eye = ''rounded''" | "eye = ''ring''" | "eye = ''target''" by blast
  then show ?thesis
    by cases (simp_all add: svg_eye_parts_def string_eval)
qed

lemma draw_eye_overlays_origins:
  assumes "eye \<in> {''rounded'', ''ring'', ''target'', ''dots''}" and "get_matrix qr \<noteq> []"
  shows "draw_eye_overlays w qr f b eye =
     (let n = int (length (get_matrix qr)); px = max 1 (w div n)
      in concat (map (\<lambda>(mx, my). eye_shapes eye px f b (mx * px, my * px))
           [(border qr, border qr), (n - border qr - 7, border qr),
            (border qr, n - border qr - 7)]))"
proof -
  from assms(1) consider "eye = ''rounded''" | "eye = ''ring''" | "eye = ''target''"
    | "eye = ''dots''" by blast
  then show ?thesis
    using assms(2) by cases (simp_all add: draw_eye_overlays_def string_eval)
qed

lemma svg_eye_parts_dots: "svg_eye_parts ''dots'' qr n pad cell f b = []"
  by (simp add: svg_eye_parts_def string_eval)

lemma svg_eye_parts_square: "svg_eye_parts ''square'' qr n pad cell f b = []"
  by (simp add: svg_eye_parts_def string_eval)

text \<open>
  C7.  For the eye style \<open>dots\<close> the SVG output carries no eye overlay at all: line 335 admits
  only \<open>rounded\<close>, \<open>ring\<close> and \<open>target\<close>, so the bytes are those of the style \<open>square\<close>, although
  \<open>_svg_eye_overlay\<close> has a branch for \<open>dots\<close> and the raster compositor draws its three
  overlays of three shapes each (shown for a 21-module code with border 4, ten pixels per
  module).
\<close>

theorem svg_dots_overlay_missing:
  "svg_eye_parts ''dots'' qr n pad cell f b = []
   \<and> generate_svg_bytes enc payload sz f b ms ''dots'' frame ft qz
       = generate_svg_bytes enc payload sz f b ms ''square'' frame ft qz
   \<and> svg_eye_overlay ''dots'' x y s f b \<noteq> []
   \<and> draw_eye_overlays 290 \<lparr>border = 4, get_matrix = replicate 29 (replicate 29 False)\<rparr>
         f b ''dots''
       = [RoundedRectangle [40, 40, 110, 110] 10 None (Some f) 10,
          RoundedRectangle [50, 50, 100, 100] 10 (Some b) None 1,
          Ellipse [65, 65, 85, 85] (Some f) None 1,
          RoundedRectangle [180, 40, 250, 110] 10 None (Some f) 10,
          RoundedRectangle [190, 50, 240, 100] 10 (Some b) None 1,
          Ellipse [205, 65, 225, 85] (Some f) None 1,
          RoundedRectangle [40, 180, 110, 250] 10 None (Some f) 10,
          RoundedRectangle [50, 190, 100, 240] 10 (Some b) None 1,
          Ellipse [65, 205, 85, 225] (Some f) None 1]"
proof -
  have "generate_svg_bytes enc payload sz f b ms ''dots'' frame ft qz
       = generate_svg_bytes enc payload sz f b ms ''square'' frame ft qz"
    by (cases "build_qr enc payload qz")
      (simp_all add: generate_svg_bytes_def svg_eye_parts_dots svg_eye_parts_square)
  moreover have "svg_eye_overlay ''dots'' x y s f b \<noteq> []"
    by (simp add: svg_eye_overlay_def Let_def)
  moreover have "draw_eye_overlays 290
         \<lparr>border = 4, get_matrix = replicate 29 (replicate 29 False)\<rparr> f b ''dots''
       = [RoundedRectangle [40, 40, 110, 110] 10 None (Some f) 10,
          RoundedRectangle [50, 50, 100, 100] 10 (Some b) None 1,
          Ellipse [65, 65, 85, 85] (Some f) None 1,
          RoundedRectangle [180, 40, 250, 110] 10 None (Some f) 10,
          RoundedRectangle [190, 50, 240, 100] 10 (Some b) None 1,
          Ellipse [205, 65, 225, 85] (Some f) None 1,
          RoundedRectangle [40, 180, 110, 250] 10 None (Some f) 10,
          RoundedRectangle [50, 190, 100, 240] 10 (Some b) None 1,
          Ellipse [65, 205, 85, 225] (Some f) None 1]"
    by (simp add: draw_eye_overlays_def eye_shapes_def string_eval)
  ultimately show ?thesis by (simp add: svg_eye_parts_dots)
qed

section \<open>Preset styles are locked\<close>





section \<open>File-system effects of rendering\<close>

lemma generate_qr_png_Inr:
  assumes "generate_qr_png lib now a w = (w', Inr r)"
  shows "\<exists>qr img w1 png svg pdf.
      build_qr (qr_make lib) (arg_payload a) (arg_quiet_zone a) = Inr qr
    \<and> compose_image lib w qr (normalize_hex (arg_fg a) DEFAULT_FG)
          (normalize_hex (arg_bg a) DEFAULT_BG)
          (draw_eye_overlays (10 * int (length (get_matrix qr))) qr
             (normalize_hex (arg_fg a) DEFAULT_FG) (normalize_hex (arg_bg a) DEFAULT_BG)
             (arg_eye_style a))
          (if text_or (arg_frame_text a) [] \<noteq> [] \<and> arg_frame_style a \<in> {''none'', []}
           then ''pill'' else arg_frame_style a) a = Inr img
    \<and> mkdir_output_dir w = Inr w1
    \<and> png_encode lib img = Inr png
    \<and> save_file (path_join ''static/generated_qr''
           (text_or (arg_filename a) (''qr_'' @ str_int now @ ''.png''))) png w1 = Inr w'
    \<and> res_path r = path_join ''static/generated_qr''
           (text_or (arg_filename a) (''qr_'' @ str_int now @ ''.png''))
    \<and> res_bytes r = png \<and> res_svg_bytes r = svg \<and> res_pdf_bytes r = pdf"
proof (cases "build_qr (qr_make lib) (arg_payload a) (arg_quiet_zone a)")
  case (Inl e)
  with assms show ?thesis by (simp add: generate_qr_png_def Let_def)
next
  case qr: (Inr qr)
  let ?f = "normalize_hex (arg_fg a) DEFAULT_FG"
  let ?b = "normalize_hex (arg_bg a) DEFAULT_BG"
  let ?frame = "if text_or (arg_frame_text a) [] \<noteq> [] \<and> arg_frame_style a \<in> {''none'', []}
           then ''pill'' else arg_frame_style a"
  let ?path = "path_join ''static/generated_qr''
           (text_or (arg_filename a) (''qr_'' @ str_int now @ ''.png''))"
  show ?thesis
  proof (cases "compose_image lib w qr ?f ?b
          (draw_eye_overlays (10 * int (length (get_matrix qr))) qr ?f ?b (arg_eye_style a))
          ?frame a")
    case (Inl e)
    with assms qr show ?thesis by (simp add: generate_qr_png_def Let_def)
  next
    case img: (Inr img)
    show ?thesis
    proof (cases "mkdir_output_dir w")
      case (Inl e)
      with assms qr img show ?thesis by (simp add: generate_qr_png_def Let_def)
    next
      case w1: (Inr w1)
      show ?thesis
      proof (cases "png_encode lib img")
        case (Inl e)
        with assms qr img w1 show ?thesis by (simp add: generate_qr_png_def Let_def)
      next
        case png: (Inr png)
        show ?thesis
        proof (cases "save_file ?path png w1")
          case (Inl e)
          with assms qr img w1 png show ?thesis by (simp add: generate_qr_png_def Let_def)
        next
          case w2: (Inr w2)
          show ?thesis
          proof (cases "generate_svg_bytes (qr_make lib) (arg_payload a) (arg_size a) ?f ?b
              (arg_module_style a) (arg_eye_style a) ?frame (arg_frame_text a) (arg_quiet_zone a)")
            case (Inl e)
            with assms qr img w1 png w2 show ?thesis by (simp add: generate_qr_png_def Let_def)
          next
            case svg: (Inr svg)
            show ?thesis
            proof (cases "to_pdf_bytes (pdf_save lib) png (arg_dpi a)")
              case (Inl e)
              with assms qr img w1 png w2 svg show ?thesis
                by (simp add: generate_qr_png_def Let_def)
            next
              case pdf: (Inr pdf)
              from assms qr img w1 png w2 svg pdf show ?thesis
                by (auto simp: generate_qr_png_def Let_def)
            qed
          qed
        qed
      qed
    qed
  qed
qed

lemma mkdir_output_dir_effect:
  assumes "mkdir_output_dir w = Inr w1"
  shows "fs_dirs w1 = fs_dirs w \<union> {''static'', ''static/generated_qr''}
       \<and> fs_files w1 = fs_files w"
  using assms by (auto simp: mkdir_output_dir_def split: if_splits)

lemma save_file_effect:
  assumes "save_file p content w1 = Inr w2"
  shows "fs_dirs w2 = fs_dirs w1 \<and> fs_files w2 = (fs_files w1)(p \<mapsto> content)"
  using assms by (auto simp: save_file_def split: if_splits)

text \<open>
  C6, as stated, fails: the call creates directories and writes a file.  Run on an empty
  file system with the default arguments, at clock 1700000000, it leaves the directories
  \<open>static\<close> and \<open>static/generated_qr\<close> and the file \<open>qr_1700000000.png\<close> in the latter.
\<close>

theorem render_writes_files_counterexample:
  "fst (generate_qr_png stub_libs 1700000000 (png_defaults ''hello'') empty_fs)
     = \<lparr>fs_dirs = {''static'', ''static/generated_qr''},
        fs_files = [''static/generated_qr/qr_1700000000.png'' \<mapsto> ''PNG'']\<rparr>
   \<and> fst (generate_qr_png stub_libs 1700000000 (png_defaults ''hello'') empty_fs) \<noteq> empty_fs"
  by (simp add: generate_qr_png_def stub_libs_def png_defaults_def empty_fs_def build_qr_def
      build_qr_border_def mkdir_output_dir_def save_file_def path_join_def dirname_def
      text_or_def generate_svg_bytes_def to_pdf_bytes_def DEFAULT_FG_def DEFAULT_BG_def
      normalize_hex_def string_eval)

text \<open>
  C6, amended.  A render call takes its configuration as explicit parameters and returns the
  PNG bytes, and it also writes to the file system: whenever \<open>generate_qr_png\<close> returns, the
  directory \<open>static/generated_qr\<close> and its parent exist, the returned PNG bytes are the
  contents of the file \<open>static/generated_qr/<filename>\<close>, whose default name is
  \<open>qr_<seconds>.png\<close> from the clock, the returned path is that file's, and nothing else in
  the file system has changed.
\<close>

theorem generate_qr_png_file_effects:
  assumes "generate_qr_png lib now a w = (w', Inr r)"
  shows "res_path r = path_join ''static/generated_qr''
           (text_or (arg_filename a) (''qr_'' @ str_int now @ ''.png''))
       \<and> fs_dirs w' = fs_dirs w \<union> {''static'', ''static/generated_qr''}
       \<and> fs_files w' = (fs_files w)(res_path r \<mapsto> res_bytes r)"
proof -
  from generate_qr_png_Inr [OF assms] obtain w1 where
    mk: "mkdir_output_dir w = Inr w1"
    and sv: "save_file (path_join ''static/generated_qr''
           (text_or (arg_filename a) (''qr_'' @ str_int now @ ''.png''))) (res_bytes r) w1 = Inr w'"
    and path: "res_path r = path_join ''static/generated_qr''
           (text_or (arg_filename a) (''qr_'' @ str_int now @ ''.png''))"
    by auto
  from mkdir_output_dir_effect [OF mk] save_file_effect [OF sv] path show ?thesis
    by simp
qed

theorem generate_qr_png_file_effects_witness:
  "generate_qr_png stub_libs 1700000000 (png_defaults ''hello'') empty_fs
     = (\<lparr>fs_dirs = {''static'', ''static/generated_qr''},
         fs_files = [''static/generated_qr/qr_1700000000.png'' \<mapsto> ''PNG'']\<rparr>,
        Inr \<lparr>res_path = ''static/generated_qr/qr_1700000000.png'', res_bytes = ''PNG'',
             res_svg_bytes = stub_svg, res_pdf_bytes = ''PDF'',
             res_contrast_ratio = generator_contrast_ratio ''#0D2A78'' ''#FFFFFF'',
             res_quality_warnings = []\<rparr>)
   \<and> path_join ''static/generated_qr'' (text_or None (''qr_'' @ str_int 1700000000 @ ''.png''))
       = ''static/generated_qr/qr_1700000000.png''"
proof -
  have contrast: "\<not> generator_contrast_ratio ''#0D2A78'' ''#FFFFFF'' < 4.5"
    using safe_pair_contrast by (simp add: generator_contrast_ratio_eq)
  have svg: "generate_svg_bytes (qr_make stub_libs) ''hello'' 600 ''#0D2A78'' ''#FFFFFF''
      ''square'' ''square'' ''none'' None 4 = Inr stub_svg"
    by (simp add: generate_svg_bytes_def stub_libs_def build_qr_def build_qr_border_def
        svg_module_parts_def svg_module_def svg_eye_parts_def svg_frame_parts_def
        stub_svg_def enumerate_eq_zip string_eval)
  have run: "generate_qr_png stub_libs 1700000000 (png_defaults ''hello'') empty_fs
     = (\<lparr>fs_dirs = {''static'', ''static/generated_qr''},
         fs_files = [''static/generated_qr/qr_1700000000.png'' \<mapsto> ''PNG'']\<rparr>,
        Inr \<lparr>res_path = ''static/generated_qr/qr_1700000000.png'', res_bytes = ''PNG'',
             res_svg_bytes = stub_svg, res_pdf_bytes = ''PDF'',
             res_contrast_ratio = generator_contrast_ratio ''#0D2A78'' ''#FFFFFF'',
             res_quality_warnings = []\<rparr>)"
    using contrast svg
    by (simp add: generate_qr_png_def png_defaults_def empty_fs_def
        mkdir_output_dir_def save_file_def path_join_def dirname_def
        text_or_def to_pdf_bytes_def DEFAULT_FG_def DEFAULT_BG_def
        normalize_hex_def stub_libs_def build_qr_def build_qr_border_def
        draw_eye_overlays_def string_eval)
  from generate_qr_png_file_effects [OF run] run show ?thesis
    by (simp add: png_defaults_def)
qed

end
